theory Spec2Isabelle
  imports Complex_Main
begin

section \<open>Numbers and vectors\<close>

text \<open>
  The TypeScript sources compute with JavaScript numbers. The geometry is embedded over
  the HOL reals: every formula keeps the operations and the order of the source, and
  rounding and the overflow of finite arithmetic are outside the model. The values a
  real is not, \<open>NaN\<close> and the two infinities, are the further constructors of \<open>jsnum\<close>
  below; the nearest-neighbour searches compare in \<open>jsnum\<close>, where their initial minimum
  \<open>Infinity\<close> lives, and the bind phase is also given on vectors of \<open>jsnum\<close>.

  \<open>THREE.Vector3\<close> is a triple of numbers. The methods the sources call are written out
  below after the library: \<open>normalize\<close> divides by the length, or by 1 when the length
  is 0.
\<close>

datatype vec3 = Vec3 (vx: real) (vy: real) (vz: real)

definition addVectors :: "vec3 \<Rightarrow> vec3 \<Rightarrow> vec3" where
  "addVectors a b = Vec3 (vx a + vx b) (vy a + vy b) (vz a + vz b)"

definition subVectors :: "vec3 \<Rightarrow> vec3 \<Rightarrow> vec3" where
  "subVectors a b = Vec3 (vx a - vx b) (vy a - vy b) (vz a - vz b)"

definition multiplyScalar :: "vec3 \<Rightarrow> real \<Rightarrow> vec3" where
  "multiplyScalar a s = Vec3 (vx a * s) (vy a * s) (vz a * s)"

definition distanceToSquared :: "vec3 \<Rightarrow> vec3 \<Rightarrow> real" where
  "distanceToSquared a b =
     (let dx = vx a - vx b; dy = vy a - vy b; dz = vz a - vz b
      in dx * dx + dy * dy + dz * dz)"

definition vlength :: "vec3 \<Rightarrow> real" where
  "vlength a = sqrt (vx a * vx a + vy a * vy a + vz a * vz a)"

definition normalize :: "vec3 \<Rightarrow> vec3" where
  "normalize a = multiplyScalar a (1 / (if vlength a = 0 then 1 else vlength a))"

definition crossVectors :: "vec3 \<Rightarrow> vec3 \<Rightarrow> vec3" where
  "crossVectors a b =
     Vec3 (vy a * vz b - vz a * vy b) (vz a * vx b - vx a * vz b) (vx a * vy b - vy a * vx b)"

definition dot :: "vec3 \<Rightarrow> vec3 \<Rightarrow> real" where
  "dot a b = vx a * vx b + vy a * vy b + vz a * vz b"

definition negate :: "vec3 \<Rightarrow> vec3" where
  "negate a = Vec3 (- vx a) (- vy a) (- vz a)"

subsection \<open>JavaScript numbers that are not real\<close>

text \<open>
  A JavaScript number is a finite number, \<open>NaN\<close>, \<open>Infinity\<close> or \<open>-Infinity\<close>. The
  operations below follow IEEE 754 on the non-finite values (\<open>NaN\<close> absorbs,
  \<open>Infinity - Infinity\<close> and \<open>Infinity * 0\<close> are \<open>NaN\<close>); on two finite numbers they
  are the real operations. Every comparison with \<open>NaN\<close> is false, and \<open>Infinity\<close> is not
  below itself.
\<close>

datatype jsnum = Number real | PosInfinity | NegInfinity | NaN

fun jsAdd :: "jsnum \<Rightarrow> jsnum \<Rightarrow> jsnum" where
  "jsAdd NaN b = NaN"
| "jsAdd a NaN = NaN"
| "jsAdd PosInfinity NegInfinity = NaN"
| "jsAdd NegInfinity PosInfinity = NaN"
| "jsAdd PosInfinity b = PosInfinity"
| "jsAdd a PosInfinity = PosInfinity"
| "jsAdd NegInfinity b = NegInfinity"
| "jsAdd a NegInfinity = NegInfinity"
| "jsAdd (Number x) (Number y) = Number (x + y)"

fun jsSub :: "jsnum \<Rightarrow> jsnum \<Rightarrow> jsnum" where
  "jsSub NaN b = NaN"
| "jsSub a NaN = NaN"
| "jsSub PosInfinity PosInfinity = NaN"
| "jsSub NegInfinity NegInfinity = NaN"
| "jsSub PosInfinity b = PosInfinity"
| "jsSub NegInfinity b = NegInfinity"
| "jsSub a PosInfinity = NegInfinity"
| "jsSub a NegInfinity = PosInfinity"
| "jsSub (Number x) (Number y) = Number (x - y)"

fun jsMul :: "jsnum \<Rightarrow> jsnum \<Rightarrow> jsnum" where
  "jsMul NaN b = NaN"
| "jsMul a NaN = NaN"
| "jsMul (Number x) (Number y) = Number (x * y)"
| "jsMul PosInfinity PosInfinity = PosInfinity"
| "jsMul PosInfinity NegInfinity = NegInfinity"
| "jsMul NegInfinity PosInfinity = NegInfinity"
| "jsMul NegInfinity NegInfinity = PosInfinity"
| "jsMul PosInfinity (Number y) =
     (if y = 0 then NaN else if 0 < y then PosInfinity else NegInfinity)"
| "jsMul NegInfinity (Number y) =
     (if y = 0 then NaN else if 0 < y then NegInfinity else PosInfinity)"
| "jsMul (Number x) PosInfinity =
     (if x = 0 then NaN else if 0 < x then PosInfinity else NegInfinity)"
| "jsMul (Number x) NegInfinity =
     (if x = 0 then NaN else if 0 < x then NegInfinity else PosInfinity)"

fun jsLess :: "jsnum \<Rightarrow> jsnum \<Rightarrow> bool" where
  "jsLess NaN b = False"
| "jsLess a NaN = False"
| "jsLess (Number x) (Number y) = (x < y)"
| "jsLess NegInfinity NegInfinity = False"
| "jsLess NegInfinity b = True"
| "jsLess PosInfinity b = False"
| "jsLess (Number x) PosInfinity = True"
| "jsLess (Number x) NegInfinity = False"

text \<open>A \<open>THREE.Vector3\<close> of such numbers, and a real vector read as one.\<close>

datatype jsvec = JsVec (jx: jsnum) (jy: jsnum) (jz: jsnum)

definition ofVec3 :: "vec3 \<Rightarrow> jsvec" where
  "ofVec3 a = JsVec (Number (vx a)) (Number (vy a)) (Number (vz a))"

definition subVectorsJS :: "jsvec \<Rightarrow> jsvec \<Rightarrow> jsvec" where
  "subVectorsJS a b = JsVec (jsSub (jx a) (jx b)) (jsSub (jy a) (jy b)) (jsSub (jz a) (jz b))"

definition distanceToSquaredJS :: "jsvec \<Rightarrow> jsvec \<Rightarrow> jsnum" where
  "distanceToSquaredJS a b =
     (let dx = jsSub (jx a) (jx b); dy = jsSub (jy a) (jy b); dz = jsSub (jz a) (jz b)
      in jsAdd (jsAdd (jsMul dx dx) (jsMul dy dy)) (jsMul dz dz))"

section \<open>utils/math: mapRange and the procedural face\<close>

definition mapRange :: "real \<Rightarrow> real \<Rightarrow> real \<Rightarrow> real \<Rightarrow> real \<Rightarrow> real" where
  "mapRange val inMin inMax outMin outMax =
     ((val - inMin) * (outMax - outMin)) / (inMax - inMin) + outMin"

text \<open>
  \<open>getFacePoint\<close>: the three coordinates are \<open>let\<close> variables of the source, updated by
  the four sculpting blocks in turn; each block is one update of the triple \<open>(x, y, z)\<close>.
\<close>

definition noseBridge :: "real \<Rightarrow> real \<Rightarrow> real \<times> real \<times> real \<Rightarrow> real \<times> real \<times> real" where
  "noseBridge u v p =
     (case p of (x, y, z) \<Rightarrow>
        let noseDist = sqrt (u ^ 2 + (v - (- 0.15)) ^ 2)
        in if noseDist < 0.3
           then (x, y, z + 0.28 * (max 0 (1 - noseDist / 0.3)) ^ 2)
           else (x, y, z))"

definition browRidge :: "real \<Rightarrow> real \<Rightarrow> real \<times> real \<times> real \<Rightarrow> real \<times> real \<times> real" where
  "browRidge u v p =
     (case p of (x, y, z) \<Rightarrow>
        let browY = 0.25; browDist = \<bar>v - browY\<bar>
        in if browDist < 0.2 \<and> \<bar>u\<bar> < 0.7
           then (x, y, z + 0.08 * cos (browDist * pi / 0.4))
           else (x, y, z))"

definition cheekbones :: "real \<Rightarrow> real \<Rightarrow> real \<times> real \<times> real \<Rightarrow> real \<times> real \<times> real" where
  "cheekbones u v p =
     (case p of (x, y, z) \<Rightarrow>
        if v < 0 \<and> v > - 0.5
        then (let cheekDist = \<bar>\<bar>u\<bar> - 0.55\<bar>
              in if cheekDist < 0.3
                 then (x + (if u > 0 then 1 else - 1) * 0.08 * cos (cheekDist * pi / 0.6),
                       y,
                       z + 0.05 * cos (cheekDist * pi / 0.6))
                 else (x, y, z))
        else (x, y, z))"

definition chin :: "real \<Rightarrow> real \<times> real \<times> real \<Rightarrow> real \<times> real \<times> real" where
  "chin v p =
     (case p of (x, y, z) \<Rightarrow>
        if v < - 0.7 then (x * 0.8, y, z + 0.05) else (x, y, z))"

definition getFacePoint :: "real \<Rightarrow> real \<Rightarrow> real \<Rightarrow> vec3" where
  "getFacePoint u v headWidthFactor =
     (let w = headWidthFactor * 0.55;
          h = 1.10;
          d = 1.00;
          theta = mapRange u (- 1) 1 (- pi / 1.6) (pi / 1.6);
          phi = mapRange v (- 1) 1 (pi / 2.5) (- pi / 3);
          x = w * sin theta * cos (phi * 0.5);
          y = - h * sin phi;
          z = d * cos theta * cos phi
      in case chin v (cheekbones u v (browRidge u v (noseBridge u v (x, y, z)))) of
           (x', y', z') \<Rightarrow> Vec3 x' y' z')"

subsection \<open>The closed form of the specification\<close>

text \<open>
  The reference definition, written from the words of the specification: \<open>lerp\<close> sends the
  ends of the first interval to the ends of the second, the lateral cheekbone push carries
  the sign of \<open>u\<close>, and the four terms are added to the base ellipsoid in the order nose
  bridge, brow ridge, cheekbones, chin.
\<close>

definition lerp :: "real \<Rightarrow> real \<times> real \<Rightarrow> real \<times> real \<Rightarrow> real" where
  "lerp t src dst =
     fst dst + (t - fst src) / (snd src - fst src) * (snd dst - fst dst)"

definition evaluate_spec :: "real \<Rightarrow> real \<Rightarrow> real \<Rightarrow> vec3" where
  "evaluate_spec u v headWidthFactor =
     (let w = headWidthFactor * 0.55;
          theta = lerp u (- 1, 1) (- pi / 1.6, pi / 1.6);
          phi = lerp v (- 1, 1) (pi / 2.5, - pi / 3);
          x0 = w * sin theta * cos (phi * 0.5);
          y0 = - 1.10 * sin phi;
          z0 = 1.00 * cos theta * cos phi;
          dist = sqrt (u ^ 2 + (v + 0.15) ^ 2);
          z1 = (if dist < 0.3 then z0 + 0.28 * (max 0 (1 - dist / 0.3)) ^ 2 else z0);
          z2 = (if \<bar>v - 0.25\<bar> < 0.2 \<and> \<bar>u\<bar> < 0.7
                then z1 + 0.08 * cos (\<bar>v - 0.25\<bar> * pi / 0.4) else z1);
          cheekDist = \<bar>\<bar>u\<bar> - 0.55\<bar>;
          cheek = (- 0.5 < v \<and> v < 0 \<and> cheekDist < 0.3);
          x3 = (if cheek then x0 + sgn u * 0.08 * cos (cheekDist * pi / 0.6) else x0);
          z3 = (if cheek then z2 + 0.05 * cos (cheekDist * pi / 0.6) else z2);
          x4 = (if v < - 0.7 then x3 * 0.8 else x3);
          z4 = (if v < - 0.7 then z3 + 0.05 else z3)
      in Vec3 x4 y0 z4)"

subsection \<open>checkZone\<close>

text \<open>The zone is a \<open>ZoneType\<close> of \<open>types.ts\<close>, one of four strings.\<close>

datatype zone = Full | Domino | Respirator | Jaw

definition checkZone :: "real \<Rightarrow> real \<Rightarrow> zone \<Rightarrow> bool" where
  "checkZone u v z =
     (case z of
        Full \<Rightarrow> True
      | Domino \<Rightarrow>
          if v > 0.1 \<and> v < 0.6 \<and> \<bar>u\<bar> < 0.85
          then (let dLeft = sqrt ((u - (- 0.4)) ^ 2 + (v - 0.35) ^ 2);
                    dRight = sqrt ((u - 0.4) ^ 2 + (v - 0.35) ^ 2)
                in if dLeft < 0.15 \<or> dRight < 0.15 then False else True)
          else False
      | Respirator \<Rightarrow> v < - 0.1 \<and> v > - 0.8 \<and> \<bar>u\<bar> < 0.6
      | Jaw \<Rightarrow> v < - 0.4 \<or> (\<bar>u\<bar> > 0.7 \<and> v < 0))"

subsection \<open>snapToMesh\<close>

text \<open>
  A \<open>THREE.BufferGeometry\<close> is its vertex buffer: the positions alone, or the positions
  with one normal per vertex when the geometry has a normal attribute. A \<open>THREE.Matrix4\<close>
  is given by the two actions the function uses: \<open>applyMatrix4\<close> on a point, and the
  normal matrix (\<open>getNormalMatrix\<close>, then \<open>applyMatrix3\<close>) on a normal.
\<close>

datatype geometry = Geometry "vec3 list" | GeometryN "(vec3 \<times> vec3) list"

fun positionAttr :: "geometry \<Rightarrow> vec3 list" where
  "positionAttr (Geometry ps) = ps"
| "positionAttr (GeometryN pns) = map fst pns"

fun normalAttr :: "geometry \<Rightarrow> vec3 list option" where
  "normalAttr (Geometry ps) = None"
| "normalAttr (GeometryN pns) = Some (map snd pns)"

record matrix4 =
  applyMatrix4 :: "vec3 \<Rightarrow> vec3"
  applyNormalMatrix :: "vec3 \<Rightarrow> vec3"

record snap =
  snap_pos :: vec3
  snap_norm :: vec3

definition snapStride :: "nat \<Rightarrow> nat" where
  "snapStride n = nat \<lfloor>max 1 (real n / 2000)\<rfloor>"

text \<open>The indices \<open>0, step, 2 * step, ...\<close> below \<open>n\<close> that the strided loop visits.\<close>

definition strided :: "nat \<Rightarrow> nat \<Rightarrow> nat list" where
  "strided n step = filter (\<lambda>i. i mod step = 0) [0..<n]"

text \<open>
  The vertices and the target are real vectors here, so the squared distance is a finite
  number; the running minimum starts as \<open>Infinity\<close>.
\<close>

definition snapVisit ::
  "vec3 \<Rightarrow> vec3 list \<Rightarrow> matrix4 \<Rightarrow> nat \<Rightarrow> jsnum \<times> int \<Rightarrow> jsnum \<times> int" where
  "snapVisit target ps matrixWorld i st =
     (case st of (minDistanceSq, bestIndex) \<Rightarrow>
        let tempPos = ps ! i;
            worldPos = applyMatrix4 matrixWorld tempPos;
            dSq = distanceToSquared target worldPos
        in if jsLess (Number dSq) minDistanceSq then (Number dSq, int i)
           else (minDistanceSq, bestIndex))"

definition snapToMesh :: "vec3 \<Rightarrow> geometry \<Rightarrow> matrix4 \<Rightarrow> snap" where
  "snapToMesh target g matrixWorld =
     (let ps = positionAttr g;
          step = snapStride (length ps);
          bestIndex = snd (fold (snapVisit target ps matrixWorld)
                             (strided (length ps) step) (PosInfinity, - 1))
      in if bestIndex \<noteq> - 1
         then (let finalPos = applyMatrix4 matrixWorld (ps ! nat bestIndex);
                   finalNorm =
                     (case normalAttr g of
                        Some ns \<Rightarrow> normalize (applyNormalMatrix matrixWorld (ns ! nat bestIndex))
                      | None \<Rightarrow> normalize finalPos)
               in \<lparr>snap_pos = finalPos, snap_norm = finalNorm\<rparr>)
         else \<lparr>snap_pos = target, snap_norm = normalize target\<rparr>)"

subsection \<open>computePointCloudNormals\<close>

text \<open>
  The function takes a flat array of \<open>3 * n\<close> numbers and returns a flat array of the
  same length; here both are lists of \<open>n\<close> vectors. A neighbour is an index with its
  squared distance. \<open>Array.prototype.sort\<close> is stable, as \<open>sort_key\<close> is.
\<close>

type_synonym neighbor = "nat \<times> real"

definition considerNeighbor ::
  "nat \<Rightarrow> vec3 list \<Rightarrow> nat \<Rightarrow> nat \<Rightarrow> neighbor list \<Rightarrow> neighbor list" where
  "considerNeighbor k positions i j neighbors =
     (if i = j then neighbors
      else (let d = distanceToSquared (positions ! i) (positions ! j)
            in if length neighbors < k
               then sort_key snd (neighbors @ [(j, d)])
               else if d < snd (last neighbors)
               then sort_key snd (butlast neighbors @ [(j, d)])
               else neighbors))"

definition findNeighbors :: "vec3 list \<Rightarrow> nat \<Rightarrow> neighbor list" where
  "findNeighbors positions i =
     fold (considerNeighbor 6 positions i) [0..<length positions] []"

definition pointNormal :: "vec3 list \<Rightarrow> nat \<Rightarrow> vec3" where
  "pointNormal positions i =
     (let p1 = positions ! i;
          neighbors = findNeighbors positions i
      in if length neighbors \<ge> 2
         then (let n1 = neighbors ! 0;
                   n2 = neighbors ! 1;
                   p2 = positions ! fst n1;
                   p3 = positions ! fst n2;
                   v1 = subVectors p2 p1;
                   v2 = subVectors p3 p1;
                   n = normalize (crossVectors v1 v2)
               in if dot n p1 < 0 then negate n else n)
         else normalize p1)"

definition computePointCloudNormals :: "vec3 list \<Rightarrow> vec3 list" where
  "computePointCloudNormals positions =
     map (pointNormal positions) [0..<length positions]"

section \<open>types.ts: the mask configuration\<close>

datatype distribution = Grid | Spiral | Random

datatype shape = Cone | Sphere | Box | Torus | Cylinder

datatype color_mode = NormalColor | Depth | Solid

text \<open>
  \<open>density\<close> is the number of candidate samples: the presets are whole numbers and the
  slider moves in steps of 10, so it is a natural number here.
\<close>

record mask_config =
  zone :: zone
  offset :: real
  headWidth :: real
  distribution :: distribution
  density :: nat
  symmetry :: bool
  shape :: shape
  scaleBase :: real
  scaleVar :: real
  colorMode :: color_mode
  primaryColor :: string
  roughness :: real
  metalness :: real

section \<open>MaskInstances\<close>

text \<open>
  Values of the rendering library are kept as the calls that made them. A \<open>THREE.Color\<close>
  is the setter that wrote it last, with its arguments (\<open>set\<close> of a style string,
  \<open>setHSL\<close>, \<open>setRGB\<close>); a quaternion is the identity or \<open>setFromUnitVectors\<close> of two
  vectors; the matrix of an \<open>Object3D\<close> is what \<open>updateMatrix\<close> composes from position,
  quaternion and scale. Each setter overwrites the whole value. For \<open>set\<close> this holds for
  the style strings the library can parse, and \<open>primaryColor\<close> is always one: it comes
  from \<open>DEFAULT_CONFIG\<close>, from a preset, or from the colour input of the sidebar.
\<close>

datatype color = ColorStyle string | ColorHSL real real real | ColorRGB real real real

datatype quaternion = QIdentity | FromUnitVectors vec3 vec3

datatype trs = Compose (trsPosition: vec3) (trsQuaternion: quaternion) (trsScale: vec3)

record object3d =
  objPosition :: vec3
  objQuaternion :: quaternion
  objScale :: vec3
  objMatrix :: trs

definition updateMatrix :: "object3d \<Rightarrow> object3d" where
  "updateMatrix ob = ob\<lparr>objMatrix := Compose (objPosition ob) (objQuaternion ob) (objScale ob)\<rparr>"

definition upVec :: vec3 where
  "upVec = Vec3 0 1 0"

record mask_instance =
  position :: vec3
  normal :: vec3
  scale :: real
  color :: color
  matrix :: trs

text \<open>
  The \<open>InstancedMesh\<close> behind \<open>meshRef\<close>: the slots written by \<open>setMatrixAt\<close> and
  \<open>setColorAt\<close>, the number of live slots, and \<open>userData.instances\<close>, absent until the
  first regeneration.
\<close>

record instanced_mesh =
  instanceMatrix :: "nat \<Rightarrow> trs option"
  instanceColor :: "nat \<Rightarrow> color option"
  count :: nat
  userInstances :: "mask_instance list option"

record anchor =
  landmarkIndex :: int
  anchorOffset :: vec3
  basePos :: vec3

text \<open>
  The state the two effects share: the mesh reference (absent before mount), the bind
  pose \<open>anchorsRef\<close>, and the scratch objects \<open>tempObj\<close> and \<open>tempColor\<close> of the module.
\<close>

record scene =
  meshRef :: "instanced_mesh option"
  anchorsRef :: "anchor list option"
  tempObj :: object3d
  tempColor :: color

subsection \<open>Regeneration (useLayoutEffect)\<close>

definition seededRandom :: "real \<Rightarrow> real" where
  "seededRandom off = (let seed = 99; x = sin (seed + off) * 10000 in x - of_int \<lfloor>x\<rfloor>)"

text \<open>Step 1 of an iteration: the candidate \<open>(u, v)\<close> of index \<open>i\<close> among \<open>cnt\<close>.\<close>

definition candidate :: "distribution \<Rightarrow> nat \<Rightarrow> nat \<Rightarrow> real \<times> real" where
  "candidate law cnt i =
     (case law of
        Grid \<Rightarrow>
          (let dim = real_of_int \<lfloor>sqrt (real cnt)\<rfloor>;
               row = real_of_int \<lfloor>real i / dim\<rfloor>;
               col = real (i mod nat \<lfloor>sqrt (real cnt)\<rfloor>)
           in (mapRange col 0 dim (- 1) 1, mapRange row 0 dim (- 1) 1))
      | Spiral \<Rightarrow>
          (let angle = real i * 2.39996;
               r = sqrt (real i) / sqrt (real cnt);
               u = r * cos angle;
               v = r * sin angle
           in (u, v * 1.2))
      | Random \<Rightarrow>
          (mapRange (seededRandom (real i)) 0 1 (- 1) 1,
           mapRange (seededRandom (real i + 1000)) 0 1 (- 1) 1))"

definition eyeCutout :: "real \<Rightarrow> real \<Rightarrow> zone \<Rightarrow> bool" where
  "eyeCutout u v z =
     (if z = Full \<or> z = Domino
      then (let dLeft = sqrt ((u - (- 0.35)) ^ 2 + (v - 0.35) ^ 2);
                dRight = sqrt ((u - 0.35) ^ 2 + (v - 0.35) ^ 2)
            in dLeft < 0.12 \<or> dRight < 0.12)
      else False)"

text \<open>Position and normal of a sample, the position already moved out by \<open>offset\<close>.\<close>

definition resolve ::
  "mask_config \<Rightarrow> geometry option \<Rightarrow> matrix4 \<Rightarrow> real \<Rightarrow> real \<Rightarrow> vec3 \<times> vec3" where
  "resolve config customMesh customMeshMatrix u v =
     (let pMath = getFacePoint u v (headWidth config);
          (pFinal, nrm) =
            (case customMesh of
               Some g \<Rightarrow>
                 (let sn = snapToMesh pMath g customMeshMatrix in (snap_pos sn, snap_norm sn))
             | None \<Rightarrow>
                 (let n0 = normalize (Vec3 (vx pMath) (vy pMath * 0.5) (vz pMath))
                  in (pMath, if vz pMath > 0.8 \<and> \<bar>vx pMath\<bar> < 0.2 then Vec3 0 0 1 else n0)))
      in (addVectors pFinal (multiplyScalar nrm (offset config)), nrm))"

definition deriveColor :: "mask_config \<Rightarrow> vec3 \<Rightarrow> vec3 \<Rightarrow> color" where
  "deriveColor config pFinal nrm =
     (if colorMode config = Solid then ColorStyle (primaryColor config)
      else if colorMode config = Depth
      then (let depth = mapRange (vz pFinal) 0 1.5 0.2 1.0 in ColorHSL 0.5 0.8 (depth * 0.8))
      else ColorRGB (vx nrm * 0.5 + 0.5) (vy nrm * 0.5 + 0.5) (vz nrm * 0.5 + 0.5))"

text \<open>The state of the loop: \<open>idx\<close>, the buffers of the mesh and the scratch objects.\<close>

record placement =
  idx :: nat
  matrices :: "nat \<Rightarrow> trs option"
  colors :: "nat \<Rightarrow> color option"
  instances :: "mask_instance list"
  obj :: object3d
  col :: color

text \<open>
  Writing one instance at slot \<open>idx\<close>: orient \<open>tempObj\<close>, store its matrix and the current
  \<open>tempColor\<close>, push the record, increment \<open>idx\<close>. The loop does this for the sample
  and, under \<open>symmetry\<close>, once more for its mirror image.
\<close>

definition emit :: "vec3 \<Rightarrow> vec3 \<Rightarrow> real \<Rightarrow> placement \<Rightarrow> placement" where
  "emit p nrm sc st =
     (let ob = updateMatrix
                 ((obj st)\<lparr>objPosition := p,
                           objQuaternion := FromUnitVectors upVec nrm,
                           objScale := Vec3 sc sc sc\<rparr>)
      in st\<lparr>idx := idx st + 1,
            matrices := (matrices st)(idx st \<mapsto> objMatrix ob),
            colors := (colors st)(idx st \<mapsto> col st),
            instances := instances st @
              [\<lparr>position = p, normal = nrm, scale = sc, color = col st, matrix = objMatrix ob\<rparr>],
            obj := ob\<rparr>)"

definition mirrorX :: "vec3 \<Rightarrow> vec3" where
  "mirrorX p = Vec3 (vx p * - 1) (vy p) (vz p)"

definition placeInstance ::
  "mask_config \<Rightarrow> geometry option \<Rightarrow> matrix4 \<Rightarrow> nat \<Rightarrow> placement \<Rightarrow> placement" where
  "placeInstance config customMesh customMeshMatrix i st =
     (case candidate (distribution config) (density config) i of (u, v) \<Rightarrow>
        if \<not> checkZone u v (zone config) then st
        else if eyeCutout u v (zone config) then st
        else (case resolve config customMesh customMeshMatrix u v of (pFinal, nrm) \<Rightarrow>
          let noiseVal = seededRandom (real i * 0.1);
              sc = scaleBase config + (noiseVal * scaleVar config);
              st1 = emit pFinal nrm sc (st\<lparr>col := deriveColor config pFinal nrm\<rparr>)
          in if symmetry config then emit (mirrorX pFinal) (mirrorX nrm) sc st1 else st1))"

definition regenerate :: "mask_config \<Rightarrow> geometry option \<Rightarrow> matrix4 \<Rightarrow> scene \<Rightarrow> scene" where
  "regenerate config customMesh customMeshMatrix s =
     (case meshRef s of
        None \<Rightarrow> s
      | Some m \<Rightarrow>
          (let st = fold (placeInstance config customMesh customMeshMatrix)
                      [0..<density config]
                      \<lparr>idx = 0, matrices = instanceMatrix m, colors = instanceColor m,
                       instances = [], obj = tempObj s, col = tempColor s\<rparr>
           in s\<lparr>meshRef := Some (m\<lparr>instanceMatrix := matrices st,
                                   instanceColor := colors st,
                                   count := idx st,
                                   userInstances := Some (instances st)\<rparr>),
                 anchorsRef := None,
                 tempObj := obj st,
                 tempColor := col st\<rparr>))"

subsection \<open>Skinning (useFrame)\<close>

text \<open>
  Reading a property of \<open>undefined\<close> throws a \<open>TypeError\<close>; an array read out of range
  is \<open>undefined\<close>. The landmarks and the rest positions of this subsection are real
  vectors, so a squared distance is a finite number; the running minimum of the search
  starts as \<open>Infinity\<close>. The bind phase on vectors that may hold \<open>NaN\<close> or an infinity
  follows in the next subsection.
\<close>

datatype error = TypeError

definition elementAt :: "'a list \<Rightarrow> int \<Rightarrow> 'a option" where
  "elementAt xs k = (if 0 \<le> k \<and> nat k < length xs then Some (xs ! nat k) else None)"

definition closestVisit ::
  "vec3 \<Rightarrow> vec3 list \<Rightarrow> nat \<Rightarrow> jsnum \<times> int \<Rightarrow> jsnum \<times> int" where
  "closestVisit p landmarks k st =
     (case st of (minDist, closestIndex) \<Rightarrow>
        let dist = distanceToSquared p (landmarks ! k)
        in if jsLess (Number dist) minDist then (Number dist, int k)
           else (minDist, closestIndex))"

definition closestLandmark :: "vec3 \<Rightarrow> vec3 list \<Rightarrow> int" where
  "closestLandmark p landmarks =
     snd (fold (closestVisit p landmarks) [0..<length landmarks] (PosInfinity, - 1))"

definition bindInstance :: "vec3 list \<Rightarrow> mask_instance \<Rightarrow> error + anchor" where
  "bindInstance landmarks inst =
     (let closestIndex = closestLandmark (position inst) landmarks
      in case elementAt landmarks closestIndex of
           None \<Rightarrow> Inl TypeError
         | Some anchorPoint \<Rightarrow>
             Inr \<lparr>landmarkIndex = closestIndex,
                  anchorOffset = subVectors (position inst) anchorPoint,
                  basePos = position inst\<rparr>)"

fun bindPhase :: "vec3 list \<Rightarrow> mask_instance list \<Rightarrow> error + anchor list" where
  "bindPhase landmarks [] = Inr []"
| "bindPhase landmarks (inst # rest) =
     (case bindInstance landmarks inst of
        Inl e \<Rightarrow> Inl e
      | Inr a \<Rightarrow> (case bindPhase landmarks rest of Inl e \<Rightarrow> Inl e | Inr as \<Rightarrow> Inr (a # as)))"

fun updatePhase ::
  "vec3 list \<Rightarrow> mask_instance list \<Rightarrow> anchor list \<Rightarrow> nat \<Rightarrow>
   (nat \<Rightarrow> trs option) \<times> object3d \<Rightarrow> error + (nat \<Rightarrow> trs option) \<times> object3d" where
  "updatePhase landmarks instanceData [] i st = Inr st"
| "updatePhase landmarks instanceData (a # rest) i st =
     (case elementAt landmarks (landmarkIndex a) of
        None \<Rightarrow> Inl TypeError
      | Some currentLandmark \<Rightarrow>
          (case elementAt instanceData (int i) of
             None \<Rightarrow> Inl TypeError
           | Some instOriginal \<Rightarrow>
               (let ob = updateMatrix
                          ((snd st)\<lparr>objPosition := addVectors currentLandmark (anchorOffset a),
                                    objScale := Vec3 (scale instOriginal) (scale instOriginal)
                                                  (scale instOriginal),
                                    objQuaternion :=
                                      FromUnitVectors (Vec3 0 1 0) (normal instOriginal)\<rparr>)
                in updatePhase landmarks instanceData rest (Suc i)
                     ((fst st)(i \<mapsto> objMatrix ob), ob))))"

definition useFrame :: "vec3 list option \<Rightarrow> scene \<Rightarrow> error + scene" where
  "useFrame landmarks s =
     (case meshRef s of
        None \<Rightarrow> Inr s
      | Some m \<Rightarrow>
     (case landmarks of
        None \<Rightarrow> Inr s
      | Some ls \<Rightarrow>
     if length ls = 0 then Inr s
     else
     (case userInstances m of
        None \<Rightarrow> Inr s
      | Some instanceData \<Rightarrow>
     (case anchorsRef s of
        None \<Rightarrow>
          (case bindPhase ls instanceData of
             Inl e \<Rightarrow> Inl e
           | Inr as \<Rightarrow> Inr (s\<lparr>anchorsRef := Some as\<rparr>))
      | Some anchors \<Rightarrow>
          (case updatePhase ls instanceData anchors 0 (instanceMatrix m, tempObj s) of
             Inl e \<Rightarrow> Inl e
           | Inr st \<Rightarrow>
               Inr (s\<lparr>meshRef := Some (m\<lparr>instanceMatrix := fst st\<rparr>),
                      tempObj := snd st\<rparr>))))))"

subsection \<open>The bind phase on JavaScript numbers\<close>

text \<open>
  The definitions above take real vectors. The bind phase, however, reads \<open>inst.position\<close>
  from the untyped \<open>userData.instances\<close>, and such a rest position need not be finite: the
  LOOP MIN field of an animated slider passes \<open>parseFloat\<close> of its text, which is \<open>NaN\<close>
  for an emptied field, into \<open>headWidth\<close> or \<open>offset\<close>, and then every instance has a
  \<open>NaN\<close> coordinate. The phase is therefore given once more on vectors of \<open>jsnum\<close>, for
  the list of the rest positions \<open>inst.position\<close>: the same search, the same read of
  \<open>landmarks[closestIndex]\<close>, the same anchor. On real vectors the two agree, as shown
  below.
\<close>

record js_anchor =
  jsLandmarkIndex :: int
  jsOffset :: jsvec
  jsBasePos :: jsvec

definition closestVisitJS ::
  "jsvec \<Rightarrow> jsvec list \<Rightarrow> nat \<Rightarrow> jsnum \<times> int \<Rightarrow> jsnum \<times> int" where
  "closestVisitJS p landmarks k st =
     (case st of (minDist, closestIndex) \<Rightarrow>
        let dist = distanceToSquaredJS p (landmarks ! k)
        in if jsLess dist minDist then (dist, int k) else (minDist, closestIndex))"

definition closestLandmarkJS :: "jsvec \<Rightarrow> jsvec list \<Rightarrow> int" where
  "closestLandmarkJS p landmarks =
     snd (fold (closestVisitJS p landmarks) [0..<length landmarks] (PosInfinity, - 1))"

definition bindInstanceJS :: "jsvec list \<Rightarrow> jsvec \<Rightarrow> error + js_anchor" where
  "bindInstanceJS landmarks restPosition =
     (let closestIndex = closestLandmarkJS restPosition landmarks
      in case elementAt landmarks closestIndex of
           None \<Rightarrow> Inl TypeError
         | Some anchorPoint \<Rightarrow>
             Inr \<lparr>jsLandmarkIndex = closestIndex,
                  jsOffset = subVectorsJS restPosition anchorPoint,
                  jsBasePos = restPosition\<rparr>)"

fun bindPhaseJS :: "jsvec list \<Rightarrow> jsvec list \<Rightarrow> error + js_anchor list" where
  "bindPhaseJS landmarks [] = Inr []"
| "bindPhaseJS landmarks (restPosition # rest) =
     (case bindInstanceJS landmarks restPosition of
        Inl e \<Rightarrow> Inl e
      | Inr a \<Rightarrow>
          (case bindPhaseJS landmarks rest of Inl e \<Rightarrow> Inl e | Inr as \<Rightarrow> Inr (a # as)))"

text \<open>An anchor of real vectors read as one of JavaScript numbers.\<close>

definition ofAnchor :: "anchor \<Rightarrow> js_anchor" where
  "ofAnchor a =
     \<lparr>jsLandmarkIndex = landmarkIndex a,
      jsOffset = ofVec3 (anchorOffset a),
      jsBasePos = ofVec3 (basePos a)\<rparr>"

section \<open>Auxiliary definitions for the proofs\<close>

text \<open>
  The configuration fields the generation reads. Two configurations that agree on them
  may still differ in \<open>roughness\<close> and \<open>metalness\<close>, which only the material uses.
\<close>

definition sameConfig :: "mask_config \<Rightarrow> mask_config \<Rightarrow> bool" where
  "sameConfig a b \<longleftrightarrow>
     shape a = shape b \<and> density a = density b \<and> distribution a = distribution b \<and>
     zone a = zone b \<and> headWidth a = headWidth b \<and> offset a = offset b \<and>
     scaleBase a = scaleBase b \<and> scaleVar a = scaleVar b \<and> symmetry a = symmetry b \<and>
     colorMode a = colorMode b \<and> primaryColor a = primaryColor b"

text \<open>
  The record \<open>emit\<close> pushes, and the records one iteration of the loop pushes: none for a
  rejected sample, the instance, or the instance and its mirror image. The loop is shown
  below to append exactly these.
\<close>

definition record_of :: "vec3 \<Rightarrow> vec3 \<Rightarrow> real \<Rightarrow> color \<Rightarrow> mask_instance" where
  "record_of p nrm sc c =
     \<lparr>position = p, normal = nrm, scale = sc, color = c,
      matrix = Compose p (FromUnitVectors upVec nrm) (Vec3 sc sc sc)\<rparr>"

definition placed ::
  "mask_config \<Rightarrow> geometry option \<Rightarrow> matrix4 \<Rightarrow> nat \<Rightarrow> mask_instance list" where
  "placed config customMesh customMeshMatrix i =
     (case candidate (distribution config) (density config) i of (u, v) \<Rightarrow>
        if \<not> checkZone u v (zone config) \<or> eyeCutout u v (zone config) then []
        else (case resolve config customMesh customMeshMatrix u v of (pFinal, nrm) \<Rightarrow>
          let sc = scaleBase config + (seededRandom (real i * 0.1) * scaleVar config);
              c = deriveColor config pFinal nrm
          in if symmetry config
             then [record_of pFinal nrm sc c, record_of (mirrorX pFinal) (mirrorX nrm) sc c]
             else [record_of pFinal nrm sc c]))"

text \<open>
  The parts of an iteration by name. A sample is accepted when it passes \<open>checkZone\<close>
  and the eye cutout; \<open>acceptedIndices\<close> lists the accepted indices in the order of the
  loop. \<open>sampleInstance\<close> is the record the loop pushes for an accepted sample, at its
  resolved position; \<open>mirrorInstance\<close> is the record it pushes right after under
  \<open>symmetry\<close>, built from \<open>symPos\<close> and \<open>symNormal\<close> with the same scale and colour.
\<close>

definition accepted :: "mask_config \<Rightarrow> nat \<Rightarrow> bool" where
  "accepted config i =
     (case candidate (distribution config) (density config) i of (u, v) \<Rightarrow>
        checkZone u v (zone config) \<and> \<not> eyeCutout u v (zone config))"

definition acceptedIndices :: "mask_config \<Rightarrow> nat list" where
  "acceptedIndices config = filter (accepted config) [0..<density config]"

definition sampleInstance ::
  "mask_config \<Rightarrow> geometry option \<Rightarrow> matrix4 \<Rightarrow> nat \<Rightarrow> mask_instance" where
  "sampleInstance config customMesh customMeshMatrix i =
     (case candidate (distribution config) (density config) i of (u, v) \<Rightarrow>
        (case resolve config customMesh customMeshMatrix u v of (pFinal, nrm) \<Rightarrow>
           record_of pFinal nrm
             (scaleBase config + (seededRandom (real i * 0.1) * scaleVar config))
             (deriveColor config pFinal nrm)))"

definition mirrorInstance :: "mask_instance \<Rightarrow> mask_instance" where
  "mirrorInstance a =
     record_of (mirrorX (position a)) (mirrorX (normal a)) (scale a) (color a)"

text \<open>
  Concrete values for the examples: \<open>DEFAULT_CONFIG\<close> of \<open>types.ts\<close>, the identity
  matrix (\<open>new THREE.Matrix4()\<close>), and the scene right after mount, with a fresh
  \<open>InstancedMesh\<close> of the given capacity and fresh scratch objects.
\<close>

definition DEFAULT_CONFIG :: mask_config where
  "DEFAULT_CONFIG =
     \<lparr>zone = Full, offset = 0.15, headWidth = 1.45, distribution = Spiral, density = 400,
      symmetry = True, shape = Cone, scaleBase = 0.08, scaleVar = 0.5, colorMode = Depth,
      primaryColor = ''#00ff9d'', roughness = 0.2, metalness = 0.8\<rparr>"

definition identityMatrix :: matrix4 where
  "identityMatrix = \<lparr>applyMatrix4 = (\<lambda>p. p), applyNormalMatrix = (\<lambda>n. n)\<rparr>"

definition freshMesh :: "nat \<Rightarrow> instanced_mesh" where
  "freshMesh capacity =
     \<lparr>instanceMatrix = (\<lambda>k. None), instanceColor = (\<lambda>k. None), count = capacity,
      userInstances = None\<rparr>"

definition freshScene :: "nat \<Rightarrow> scene" where
  "freshScene capacity =
     \<lparr>meshRef = Some (freshMesh capacity),
      anchorsRef = None,
      tempObj = \<lparr>objPosition = Vec3 0 0 0, objQuaternion = QIdentity, objScale = Vec3 1 1 1,
                 objMatrix = Compose (Vec3 0 0 0) QIdentity (Vec3 1 1 1)\<rparr>,
      tempColor = ColorRGB 1 1 1\<rparr>"

text \<open>
  What a regeneration leaves for the binding: \<open>userData.instances\<close> of the mesh and its
  \<open>count\<close>. Both are read as empty when the mesh is not mounted.
\<close>

definition instanceSet :: "scene \<Rightarrow> mask_instance list" where
  "instanceSet s =
     (case meshRef s of
        None \<Rightarrow> []
      | Some m \<Rightarrow> (case userInstances m of None \<Rightarrow> [] | Some insts \<Rightarrow> insts))"

definition realizedCount :: "scene \<Rightarrow> nat" where
  "realizedCount s = (case meshRef s of None \<Rightarrow> 0 | Some m \<Rightarrow> count m)"

text \<open>
  Two small configurations with a single sample and no offset: \<open>depthDemo\<close> is
  \<open>DEFAULT_CONFIG\<close> without mirroring, its sample at \<open>(u, v) = (0, 0)\<close>; \<open>gridDemo\<close> is
  \<open>DEFAULT_CONFIG\<close> with the grid law, mirrored, its sample at the corner
  \<open>(u, v) = (-1, -1)\<close>.
\<close>

definition depthDemo :: mask_config where
  "depthDemo = DEFAULT_CONFIG\<lparr>density := 1, symmetry := False, offset := 0\<rparr>"

definition gridDemo :: mask_config where
  "gridDemo = DEFAULT_CONFIG\<lparr>distribution := Grid, density := 1, offset := 0\<rparr>"

text \<open>Successive frames, stopping at the first error, and the position a slot renders at.\<close>

fun frames :: "vec3 list option list \<Rightarrow> scene \<Rightarrow> error + scene" where
  "frames [] s = Inr s"
| "frames (landmarks # rest) s =
     (case useFrame landmarks s of Inl e \<Rightarrow> Inl e | Inr s' \<Rightarrow> frames rest s')"

definition renderedPosition :: "nat \<Rightarrow> scene \<Rightarrow> vec3 option" where
  "renderedPosition k s =
     (case meshRef s of
        None \<Rightarrow> None
      | Some m \<Rightarrow> map_option trsPosition (instanceMatrix m k))"

text \<open>
  A scene as a regeneration leaves it when one sample was accepted, at \<open>(0, 0, 1)\<close> with
  normal \<open>(0, 0, 1)\<close> and scale \<open>0.1\<close> in colour mode Normal; the binding of that instance
  to the landmark \<open>(0, 0, 0.9)\<close>; and the scene with this binding.
\<close>

definition demoInstance :: mask_instance where
  "demoInstance = record_of (Vec3 0 0 1) (Vec3 0 0 1) 0.1 (ColorRGB 0.5 0.5 1)"

definition demoMesh :: instanced_mesh where
  "demoMesh =
     \<lparr>instanceMatrix = (\<lambda>k. if k = 0 then Some (matrix demoInstance) else None),
      instanceColor = (\<lambda>k. if k = 0 then Some (color demoInstance) else None),
      count = 1,
      userInstances = Some [demoInstance]\<rparr>"

definition demoScene :: scene where
  "demoScene =
     \<lparr>meshRef = Some demoMesh,
      anchorsRef = None,
      tempObj = \<lparr>objPosition = Vec3 0 0 1, objQuaternion = FromUnitVectors upVec (Vec3 0 0 1),
                 objScale = Vec3 0.1 0.1 0.1, objMatrix = matrix demoInstance\<rparr>,
      tempColor = ColorRGB 0.5 0.5 1\<rparr>"

definition demoAnchor :: anchor where
  "demoAnchor = \<lparr>landmarkIndex = 0, anchorOffset = Vec3 0 0 0.1, basePos = Vec3 0 0 1\<rparr>"

definition boundDemo :: scene where
  "boundDemo = demoScene\<lparr>anchorsRef := Some [demoAnchor]\<rparr>"

section \<open>SurfaceModel\<close>

lemma mapRange_lerp: "mapRange t a b c d = lerp t (a, b) (c, d)"
  by (simp add: mapRange_def lerp_def)

lemma cheek_sign: "\<bar>\<bar>u\<bar> - 0.55\<bar> < 0.3 \<Longrightarrow> (if u > 0 then 1 else - 1) = sgn (u::real)"
  by (auto simp: sgn_if)

text \<open>
  C1. For all parametric coordinates \<open>(u, v)\<close>, in particular those of the domain
  \<open>[-1,1] \<times> [-1,1]\<close>, and every head width factor, \<open>getFacePoint\<close> returns the point of the
  closed form of the specification: base ellipsoid, then nose bridge, brow ridge,
  cheekbones and chin in this order.
\<close>

theorem getFacePoint_eq_evaluate_spec:
  "getFacePoint u v headWidthFactor = evaluate_spec u v headWidthFactor"
proof -
  have s: "\<bar>\<bar>u\<bar> - 0.55\<bar> < 0.3 \<Longrightarrow> (if u > 0 then 1 else - 1) = sgn u"
    by (rule cheek_sign)
  show ?thesis
    unfolding getFacePoint_def evaluate_spec_def noseBridge_def browRidge_def
      cheekbones_def chin_def mapRange_lerp Let_def
    using s by (auto simp: sgn_if)
qed

section \<open>SpatialSnapper\<close>

lemma sqrt25: "sqrt 25 = 5"
  using real_sqrt_abs [of 5] by simp

lemma sqrt9: "sqrt 9 = 3"
  using real_sqrt_abs [of 3] by simp

text \<open>
  C9. On a mesh whose vertex buffer has no vertices the strided loop visits nothing,
  \<open>bestIndex\<close> stays \<open>-1\<close>, and \<open>snapToMesh\<close> returns the target point itself with the
  normalized target as the normal. No error is raised: the result is a sample.
\<close>

theorem snapToMesh_empty_mesh:
  "positionAttr g = [] \<Longrightarrow>
   snapToMesh target g matrixWorld = \<lparr>snap_pos = target, snap_norm = normalize target\<rparr>"
  by (simp add: snapToMesh_def strided_def)

theorem snapToMesh_empty_mesh_witness:
  "positionAttr (Geometry []) = [] \<and>
   snapToMesh (Vec3 3 0 4) (Geometry []) \<lparr>applyMatrix4 = (\<lambda>p. p), applyNormalMatrix = (\<lambda>n. n)\<rparr>
     = \<lparr>snap_pos = Vec3 3 0 4, snap_norm = Vec3 (3 / 5) 0 (4 / 5)\<rparr>"
  using snapToMesh_empty_mesh [of "Geometry []" "Vec3 3 0 4"
      "\<lparr>applyMatrix4 = (\<lambda>p. p), applyNormalMatrix = (\<lambda>n. n)\<rparr>"]
  by (simp add: normalize_def vlength_def multiplyScalar_def sqrt25)

section \<open>NormalEstimator\<close>

lemma upt2: "[0..<2] = [0, Suc 0]"
  by (simp add: upt_rec numeral_2_eq_2)

lemma upt3: "[0..<3] = [0, Suc 0, Suc (Suc 0)]"
  by (simp add: upt_rec numeral_3_eq_3)

lemma findNeighbors_one: "findNeighbors [a] 0 = []"
  by (simp add: findNeighbors_def considerNeighbor_def)

lemma findNeighbors_two: "i < 2 \<Longrightarrow> length (findNeighbors [a, b] i) = 1"
  by (cases i) (auto simp add: findNeighbors_def considerNeighbor_def upt2 less_Suc_eq)

text \<open>
  C7, as the specification states it, fails for a cloud of exactly three points: every
  point then has two neighbours and gets the cross-product normal. For the first of the
  points \<open>(1,0,0)\<close>, \<open>(2,0,0)\<close>, \<open>(1,3,0)\<close> the estimate is \<open>(0,0,1)\<close>, while the point
  normalized is \<open>(1,0,0)\<close>.
\<close>

theorem normals_three_points_counterexample:
  "length [Vec3 1 0 0, Vec3 2 0 0, Vec3 1 3 0] \<le> 3 \<and>
   computePointCloudNormals [Vec3 1 0 0, Vec3 2 0 0, Vec3 1 3 0] ! 0 = Vec3 0 0 1 \<and>
   map normalize [Vec3 1 0 0, Vec3 2 0 0, Vec3 1 3 0] ! 0 = Vec3 1 0 0"
  by (simp add: computePointCloudNormals_def pointNormal_def findNeighbors_def
      considerNeighbor_def upt3 distanceToSquared_def subVectors_def crossVectors_def
      normalize_def vlength_def multiplyScalar_def dot_def sqrt9 Let_def)

text \<open>
  C7, amended. For every point cloud of two or fewer points, \<open>computePointCloudNormals\<close>
  returns for each point the fallback normal, the point's own position normalized.
\<close>

theorem normals_two_or_fewer:
  "length positions \<le> 2 \<Longrightarrow> computePointCloudNormals positions = map normalize positions"
proof -
  assume l: "length positions \<le> 2"
  consider "positions = []" | a where "positions = [a]" | a b where "positions = [a, b]"
    using l by (cases positions; cases "tl positions"; cases "tl (tl positions)") auto
  then show ?thesis
  proof cases
    case 1
    then show ?thesis by (simp add: computePointCloudNormals_def)
  next
    case 2
    then show ?thesis
      by (simp add: computePointCloudNormals_def pointNormal_def findNeighbors_one)
  next
    case 3
    then show ?thesis
      by (simp add: computePointCloudNormals_def pointNormal_def findNeighbors_two upt2)
  qed
qed

theorem normals_two_or_fewer_witness:
  "length [Vec3 3 0 4, Vec3 0 3 0] \<le> 2 \<and>
   computePointCloudNormals [Vec3 3 0 4, Vec3 0 3 0] = [Vec3 (3 / 5) 0 (4 / 5), Vec3 0 1 0]"
  using normals_two_or_fewer [of "[Vec3 3 0 4, Vec3 0 3 0]"]
  by (simp add: normalize_def vlength_def multiplyScalar_def sqrt25 sqrt9)

section \<open>PlacementEngine\<close>

subsection \<open>What the loop appends\<close>

lemma emit_instances:
  "instances (emit p n sc st) = instances st @ [record_of p n sc (col st)]"
  by (simp add: emit_def updateMatrix_def record_of_def Let_def)

lemma emit_idx: "idx (emit p n sc st) = idx st + 1"
  by (simp add: emit_def Let_def)

lemma emit_col: "col (emit p n sc st) = col st"
  by (simp add: emit_def Let_def)

lemma placeInstance_placed:
  "instances (placeInstance config g M i st) = instances st @ placed config g M i \<and>
   idx (placeInstance config g M i st) = idx st + length (placed config g M i)"
proof -
  obtain u v where uv: "candidate (distribution config) (density config) i = (u, v)"
    by (cases "candidate (distribution config) (density config) i") auto
  obtain p n where pn: "resolve config g M u v = (p, n)"
    by (cases "resolve config g M u v") auto
  show ?thesis
  proof (cases "checkZone u v (zone config) \<and> \<not> eyeCutout u v (zone config)")
    case False
    then show ?thesis
      by (auto simp add: placeInstance_def placed_def uv)
  next
    case True
    then show ?thesis
      by (simp add: placeInstance_def placed_def uv pn Let_def emit_instances emit_idx emit_col)
  qed
qed

lemma fold_placeInstance_placed:
  "instances (fold (placeInstance config g M) ks st) =
     instances st @ concat (map (placed config g M) ks) \<and>
   idx (fold (placeInstance config g M) ks st) =
     idx st + length (concat (map (placed config g M) ks))"
proof (induction ks arbitrary: st)
  case Nil
  then show ?case by simp
next
  case (Cons k ks)
  show ?case
    using Cons.IH [of "placeInstance config g M k st"] placeInstance_placed [of config g M k st]
    by simp
qed

lemma regenerate_instances:
  assumes "meshRef s = Some m"
  shows "\<exists>r. meshRef (regenerate config g M s) = Some r \<and>
             userInstances r = Some (concat (map (placed config g M) [0..<density config])) \<and>
             count r = length (concat (map (placed config g M) [0..<density config]))"
  using assms fold_placeInstance_placed [of config g M "[0..<density config]"
      "\<lparr>idx = 0, matrices = instanceMatrix m, colors = instanceColor m,
        instances = [], obj = tempObj s, col = tempColor s\<rparr>"]
  by (simp add: regenerate_def Let_def)

lemma instanceSet_regenerate:
  assumes "meshRef s \<noteq> None"
  shows "instanceSet (regenerate config g M s) =
           concat (map (placed config g M) [0..<density config])"
    and "realizedCount (regenerate config g M s) =
           length (concat (map (placed config g M) [0..<density config]))"
proof -
  obtain m where m: "meshRef s = Some m" using assms by auto
  obtain r where r: "meshRef (regenerate config g M s) = Some r"
    "userInstances r = Some (concat (map (placed config g M) [0..<density config]))"
    "count r = length (concat (map (placed config g M) [0..<density config]))"
    using regenerate_instances [OF m] by blast
  show "instanceSet (regenerate config g M s) =
           concat (map (placed config g M) [0..<density config])"
    by (simp add: instanceSet_def r)
  show "realizedCount (regenerate config g M s) =
           length (concat (map (placed config g M) [0..<density config]))"
    by (simp add: realizedCount_def r)
qed

lemma regenerate_anchors:
  "meshRef s = Some m \<Longrightarrow> anchorsRef (regenerate config g M s) = None"
  by (simp add: regenerate_def Let_def)

subsection \<open>Determinism\<close>

lemma placed_cong:
  assumes "sameConfig a b"
  shows "placed a g M i = placed b g M i"
proof -
  have r: "resolve a g M = resolve b g M"
    using assms by (intro ext) (simp add: sameConfig_def resolve_def)
  have c: "deriveColor a = deriveColor b"
    using assms by (intro ext) (simp add: sameConfig_def deriveColor_def)
  have f: "distribution a = distribution b" "density a = density b" "zone a = zone b"
    "scaleBase a = scaleBase b" "scaleVar a = scaleVar b" "symmetry a = symmetry b"
    using assms by (simp_all add: sameConfig_def)
  show ?thesis
    unfolding placed_def r c f ..
qed

text \<open>
  C2. Generation is deterministic. Two runs of the regeneration step with the same target
  mesh and transform, under configurations that agree on shape, density, distribution,
  zone, head width, offset, scale base, scale variation, symmetry, colour mode and primary
  colour, produce the same InstanceSet (every record: position, normal, scale, colour,
  rest matrix) and the same realized count, whatever the two scenes held before: the
  earlier instances, anchors, buffers, and the contents of the scratch objects \<open>tempObj\<close>
  and \<open>tempColor\<close> have no influence.
\<close>

theorem regenerate_deterministic:
  assumes "sameConfig config1 config2"
    and "meshRef s1 \<noteq> None" and "meshRef s2 \<noteq> None"
  shows "instanceSet (regenerate config1 customMesh customMeshMatrix s1) =
           instanceSet (regenerate config2 customMesh customMeshMatrix s2) \<and>
         realizedCount (regenerate config1 customMesh customMeshMatrix s1) =
           realizedCount (regenerate config2 customMesh customMeshMatrix s2)"
proof -
  have d: "density config1 = density config2" using assms(1) by (simp add: sameConfig_def)
  have p: "placed config1 customMesh customMeshMatrix = placed config2 customMesh customMeshMatrix"
    by (intro ext) (rule placed_cong [OF assms(1)])
  show ?thesis
    unfolding instanceSet_regenerate [OF assms(2)] instanceSet_regenerate [OF assms(3)] d p
    by simp
qed

theorem regenerate_deterministic_witness:
  "sameConfig DEFAULT_CONFIG (DEFAULT_CONFIG\<lparr>roughness := 0.5\<rparr>) \<and>
   meshRef (freshScene 800) \<noteq> None \<and>
   meshRef ((freshScene 800)\<lparr>tempColor := ColorStyle ''#ff0000''\<rparr>) \<noteq> None \<and>
   instanceSet (regenerate DEFAULT_CONFIG None identityMatrix (freshScene 800)) =
     instanceSet (regenerate (DEFAULT_CONFIG\<lparr>roughness := 0.5\<rparr>) None identityMatrix
                    ((freshScene 800)\<lparr>tempColor := ColorStyle ''#ff0000''\<rparr>)) \<and>
   realizedCount (regenerate DEFAULT_CONFIG None identityMatrix (freshScene 800)) =
     realizedCount (regenerate (DEFAULT_CONFIG\<lparr>roughness := 0.5\<rparr>) None identityMatrix
                    ((freshScene 800)\<lparr>tempColor := ColorStyle ''#ff0000''\<rparr>))"
proof -
  have a: "sameConfig DEFAULT_CONFIG (DEFAULT_CONFIG\<lparr>roughness := 0.5\<rparr>)"
    by (simp add: sameConfig_def)
  have b: "meshRef (freshScene 800) \<noteq> None" by (simp add: freshScene_def)
  have c: "meshRef ((freshScene 800)\<lparr>tempColor := ColorStyle ''#ff0000''\<rparr>) \<noteq> None"
    by (simp add: freshScene_def)
  show ?thesis
    using a b c regenerate_deterministic [OF a b c, of None identityMatrix] by blast
qed

subsection \<open>Mirrored pairs\<close>

lemma placed_accepted:
  "placed config g M i =
     (if accepted config i
      then (if symmetry config
            then [sampleInstance config g M i, mirrorInstance (sampleInstance config g M i)]
            else [sampleInstance config g M i])
      else [])"
proof -
  obtain u v where uv: "candidate (distribution config) (density config) i = (u, v)"
    by (cases "candidate (distribution config) (density config) i") auto
  obtain p n where pn: "resolve config g M u v = (p, n)"
    by (cases "resolve config g M u v") auto
  show ?thesis
    by (simp add: placed_def accepted_def sampleInstance_def mirrorInstance_def uv pn
        record_of_def Let_def)
qed

lemma concat_map_if:
  "concat (map (\<lambda>i. if P i then f i else []) xs) = concat (map f (filter P xs))"
  by (induction xs) simp_all

lemma instanceSet_symmetric:
  assumes "symmetry config" and "meshRef s \<noteq> None"
  shows "instanceSet (regenerate config g M s) =
           concat (map (\<lambda>i. [sampleInstance config g M i,
                               mirrorInstance (sampleInstance config g M i)])
                       (acceptedIndices config))"
proof -
  have "placed config g M =
          (\<lambda>i. if accepted config i
                then [sampleInstance config g M i, mirrorInstance (sampleInstance config g M i)]
                else [])"
    using assms(1) by (intro ext) (simp add: placed_accepted)
  then show ?thesis
    unfolding instanceSet_regenerate [OF assms(2)] acceptedIndices_def
    by (simp only: concat_map_if)
qed

lemma concat_pairs_length: "length (concat (map (\<lambda>i. [f i, g i]) xs)) = 2 * length xs"
  by (induction xs) simp_all

lemma concat_pairs_nth:
  "j < length xs \<Longrightarrow>
   concat (map (\<lambda>i. [f i, g i]) xs) ! (2 * j) = f (xs ! j) \<and>
   concat (map (\<lambda>i. [f i, g i]) xs) ! (2 * j + 1) = g (xs ! j)"
proof (induction xs arbitrary: j)
  case Nil
  then show ?case by simp
next
  case (Cons x xs)
  show ?case
  proof (cases j)
    case 0
    then show ?thesis by simp
  next
    case (Suc k)
    then have "k < length xs" using Cons.prems by simp
    then show ?thesis using Cons.IH [of k] Suc by simp
  qed
qed

lemma mirrorInstance_fields:
  "position (mirrorInstance a) = Vec3 (- vx (position a)) (vy (position a)) (vz (position a))"
  "scale (mirrorInstance a) = scale a"
  "color (mirrorInstance a) = color a"
  by (simp_all add: mirrorInstance_def record_of_def mirrorX_def)

text \<open>
  C8. With \<open>symmetry\<close> set, the InstanceSet holds two records for every accepted sample
  and nothing else, in the order of the loop: for the \<open>j\<close>-th accepted index, the record
  at \<open>2j\<close> is the accepted instance itself, at its resolved position \<open>(x, y, z)\<close>, and the
  record appended right after it, at \<open>2j + 1\<close>, is its mirror image at \<open>(-x, y, z)\<close> with
  the same scale and the same colour.
\<close>

theorem symmetry_mirrored_pairs:
  assumes "symmetry config" and "meshRef s \<noteq> None"
  shows "length (instanceSet (regenerate config customMesh customMeshMatrix s)) =
           2 * length (acceptedIndices config) \<and>
         (\<forall>j < length (acceptedIndices config).
            instanceSet (regenerate config customMesh customMeshMatrix s) ! (2 * j) =
              sampleInstance config customMesh customMeshMatrix (acceptedIndices config ! j) \<and>
            instanceSet (regenerate config customMesh customMeshMatrix s) ! (2 * j + 1) =
              mirrorInstance (instanceSet (regenerate config customMesh customMeshMatrix s) ! (2 * j)) \<and>
            position (instanceSet (regenerate config customMesh customMeshMatrix s) ! (2 * j + 1)) =
              Vec3 (- vx (position (instanceSet (regenerate config customMesh customMeshMatrix s) ! (2 * j))))
                   (vy (position (instanceSet (regenerate config customMesh customMeshMatrix s) ! (2 * j))))
                   (vz (position (instanceSet (regenerate config customMesh customMeshMatrix s) ! (2 * j)))) \<and>
            scale (instanceSet (regenerate config customMesh customMeshMatrix s) ! (2 * j + 1)) =
              scale (instanceSet (regenerate config customMesh customMeshMatrix s) ! (2 * j)) \<and>
            color (instanceSet (regenerate config customMesh customMeshMatrix s) ! (2 * j + 1)) =
              color (instanceSet (regenerate config customMesh customMeshMatrix s) ! (2 * j)))"
proof -
  let ?f = "sampleInstance config customMesh customMeshMatrix"
  let ?g = "\<lambda>i. mirrorInstance (sampleInstance config customMesh customMeshMatrix i)"
  have e: "instanceSet (regenerate config customMesh customMeshMatrix s) =
             concat (map (\<lambda>i. [?f i, ?g i]) (acceptedIndices config))"
    by (rule instanceSet_symmetric [OF assms])
  have l: "length (concat (map (\<lambda>i. [?f i, ?g i]) (acceptedIndices config))) =
             2 * length (acceptedIndices config)"
    by (rule concat_pairs_length)
  have n: "concat (map (\<lambda>i. [?f i, ?g i]) (acceptedIndices config)) ! (2 * j) =
             ?f (acceptedIndices config ! j) \<and>
           concat (map (\<lambda>i. [?f i, ?g i]) (acceptedIndices config)) ! (2 * j + 1) =
             ?g (acceptedIndices config ! j)"
    if "j < length (acceptedIndices config)" for j
    using that by (rule concat_pairs_nth)
  show ?thesis
    unfolding e using l n by (simp add: mirrorInstance_fields)
qed

lemma eyeCutout_origin: "\<not> eyeCutout 0 0 Full"
proof -
  have "(12 / 100)\<^sup>2 \<le> (245 / 1000 :: real)" by (simp add: power2_eq_square)
  then have "12 / 100 \<le> sqrt (245 / 1000)" by (rule real_le_rsqrt)
  then show ?thesis by (simp add: eyeCutout_def power2_eq_square)
qed

lemma candidate_spiral_first: "candidate Spiral 1 0 = (0, 0)"
  by (simp add: candidate_def)

lemma sin_theta_corner: "0 < sin (pi / 1.6)"
  by (rule sin_gt_zero) (simp_all add: field_simps)

lemma cos_half_phi_corner: "0 < cos (pi / 2.5 * 0.5)"
  by (rule cos_gt_zero_pi) (simp_all add: field_simps)

lemma nose_far_corner: "\<not> sqrt ((- 1)\<^sup>2 + (- 1 - (- 0.15))\<^sup>2) < (0.3::real)"
proof -
  have "(0.3::real)\<^sup>2 \<le> (- 1)\<^sup>2 + (- 1 - (- 0.15))\<^sup>2" by (simp add: power2_eq_square)
  then have "0.3 \<le> sqrt ((- 1)\<^sup>2 + (- 1 - (- 0.15))\<^sup>2)" by (rule real_le_rsqrt)
  then show ?thesis by simp
qed

lemma getFacePoint_corner_x:
  "vx (getFacePoint (- 1) (- 1) w) = - (w * 0.55 * sin (pi / 1.6) * cos (pi / 2.5 * 0.5) * 0.8)"
proof -
  have t: "mapRange (- 1) (- 1) 1 (- pi / 1.6) (pi / 1.6) = - (pi / 1.6)"
    by (simp add: mapRange_def)
  have p: "mapRange (- 1) (- 1) 1 (pi / 2.5) (- pi / 3) = pi / 2.5"
    by (simp add: mapRange_def)
  have n: "noseBridge (- 1) (- 1) (x, y, z) = (x, y, z)" for x y z
    unfolding noseBridge_def using nose_far_corner by (simp add: Let_def)
  show ?thesis
    unfolding getFacePoint_def t p Let_def n
    by (simp add: browRidge_def cheekbones_def chin_def)
qed

lemma eyeCutout_corner: "\<not> eyeCutout (- 1) (- 1) Full"
proof -
  have "(0.12::real)\<^sup>2 \<le> (- 1 - (- 0.35))\<^sup>2 + (- 1 - 0.35)\<^sup>2" by (simp add: power2_eq_square)
  then have l: "0.12 \<le> sqrt ((- 1 - (- 0.35))\<^sup>2 + (- 1 - 0.35)\<^sup>2)" by (rule real_le_rsqrt)
  have "(0.12::real)\<^sup>2 \<le> (- 1 - 0.35)\<^sup>2 + (- 1 - 0.35)\<^sup>2" by (simp add: power2_eq_square)
  then have r: "0.12 \<le> sqrt ((- 1 - 0.35)\<^sup>2 + (- 1 - 0.35)\<^sup>2)" by (rule real_le_rsqrt)
  show ?thesis
    unfolding eyeCutout_def Let_def using l r by (simp add: not_less)
qed

lemma candidate_grid_first: "candidate Grid 1 0 = (- 1, - 1)"
  by (simp add: candidate_def mapRange_def Let_def)

lemma acceptedIndices_gridDemo: "acceptedIndices gridDemo = [0]"
proof -
  have c: "candidate (distribution gridDemo) (density gridDemo) 0 = (- 1, - 1)"
    using candidate_grid_first by (simp add: gridDemo_def DEFAULT_CONFIG_def)
  have z: "zone gridDemo = Full" by (simp add: gridDemo_def DEFAULT_CONFIG_def)
  have "accepted gridDemo 0"
    unfolding accepted_def c z using eyeCutout_corner by (simp add: checkZone_def)
  moreover have "density gridDemo = 1" by (simp add: gridDemo_def)
  ultimately show ?thesis by (simp add: acceptedIndices_def)
qed

lemma sampleInstance_gridDemo_x:
  "vx (position (sampleInstance gridDemo None identityMatrix 0)) =
     - (1.45 * 0.55 * sin (pi / 1.6) * cos (pi / 2.5 * 0.5) * 0.8)"
proof -
  have c: "candidate (distribution gridDemo) (density gridDemo) 0 = (- 1, - 1)"
    using candidate_grid_first by (simp add: gridDemo_def DEFAULT_CONFIG_def)
  have f: "offset gridDemo = 0" "headWidth gridDemo = 1.45"
    by (simp_all add: gridDemo_def DEFAULT_CONFIG_def)
  have "fst (resolve gridDemo None identityMatrix (- 1) (- 1)) = getFacePoint (- 1) (- 1) 1.45"
    by (simp add: resolve_def f addVectors_def multiplyScalar_def Let_def)
  then obtain n where pn: "resolve gridDemo None identityMatrix (- 1) (- 1) =
      (getFacePoint (- 1) (- 1) 1.45, n)"
    by (cases "resolve gridDemo None identityMatrix (- 1) (- 1)") auto
  have "position (sampleInstance gridDemo None identityMatrix 0) =
               getFacePoint (- 1) (- 1) 1.45"
    unfolding sampleInstance_def c by (simp add: pn record_of_def)
  then show ?thesis by (simp only: getFacePoint_corner_x)
qed

theorem symmetry_mirrored_pairs_witness:
  "symmetry gridDemo \<and> meshRef (freshScene 2) \<noteq> None \<and>
   acceptedIndices gridDemo = [0] \<and>
   length (instanceSet (regenerate gridDemo None identityMatrix (freshScene 2))) = 2 \<and>
   instanceSet (regenerate gridDemo None identityMatrix (freshScene 2)) ! 0 =
     sampleInstance gridDemo None identityMatrix 0 \<and>
   vx (position (instanceSet (regenerate gridDemo None identityMatrix (freshScene 2)) ! 0)) < 0 \<and>
   0 < vx (position (instanceSet (regenerate gridDemo None identityMatrix (freshScene 2)) ! 1)) \<and>
   position (instanceSet (regenerate gridDemo None identityMatrix (freshScene 2)) ! 1) =
     Vec3 (- vx (position (instanceSet (regenerate gridDemo None identityMatrix (freshScene 2)) ! 0)))
          (vy (position (instanceSet (regenerate gridDemo None identityMatrix (freshScene 2)) ! 0)))
          (vz (position (instanceSet (regenerate gridDemo None identityMatrix (freshScene 2)) ! 0))) \<and>
   scale (instanceSet (regenerate gridDemo None identityMatrix (freshScene 2)) ! 1) =
     scale (instanceSet (regenerate gridDemo None identityMatrix (freshScene 2)) ! 0) \<and>
   color (instanceSet (regenerate gridDemo None identityMatrix (freshScene 2)) ! 1) =
     color (instanceSet (regenerate gridDemo None identityMatrix (freshScene 2)) ! 0)"
proof -
  let ?I = "instanceSet (regenerate gridDemo None identityMatrix (freshScene 2))"
  have a: "symmetry gridDemo" by (simp add: gridDemo_def DEFAULT_CONFIG_def)
  have b: "meshRef (freshScene 2) \<noteq> None" by (simp add: freshScene_def)
  note t = symmetry_mirrored_pairs [OF a b, of None identityMatrix]
  have l: "length ?I = 2" using t by (simp add: acceptedIndices_gridDemo)
  have "(0::nat) < length (acceptedIndices gridDemo)" by (simp add: acceptedIndices_gridDemo)
  with t have "?I ! (2 * 0) =
             sampleInstance gridDemo None identityMatrix (acceptedIndices gridDemo ! 0) \<and>
           ?I ! (2 * 0 + 1) = mirrorInstance (?I ! (2 * 0)) \<and>
           position (?I ! (2 * 0 + 1)) =
             Vec3 (- vx (position (?I ! (2 * 0)))) (vy (position (?I ! (2 * 0))))
                  (vz (position (?I ! (2 * 0)))) \<and>
           scale (?I ! (2 * 0 + 1)) = scale (?I ! (2 * 0)) \<and>
           color (?I ! (2 * 0 + 1)) = color (?I ! (2 * 0))"
    by blast
  then have j: "?I ! 0 = sampleInstance gridDemo None identityMatrix 0 \<and>
           position (?I ! 1) =
             Vec3 (- vx (position (?I ! 0))) (vy (position (?I ! 0))) (vz (position (?I ! 0))) \<and>
           scale (?I ! 1) = scale (?I ! 0) \<and> color (?I ! 1) = color (?I ! 0)"
    by (simp add: acceptedIndices_gridDemo mirrorInstance_fields)
  have "0 < 1.45 * 0.55 * sin (pi / 1.6) * cos (pi / 2.5 * 0.5) * (0.8::real)"
    using sin_theta_corner cos_half_phi_corner by (intro mult_pos_pos) simp_all
  then have x: "vx (position (?I ! 0)) < 0"
    using j sampleInstance_gridDemo_x by simp
  then have "0 < vx (position (?I ! 1))" using j by simp
  then show ?thesis using a b l j x acceptedIndices_gridDemo by simp
qed

subsection \<open>Depth colouring\<close>

lemma sqrt_nose_origin: "sqrt (0\<^sup>2 + (0 - (- 0.15))\<^sup>2) = (0.15::real)"
proof -
  have "sqrt (0\<^sup>2 + (0 - (- 0.15))\<^sup>2) = sqrt ((0.15::real)\<^sup>2)" by simp
  also have "\<dots> = 0.15" by (simp only: real_sqrt_abs) simp
  finally show ?thesis .
qed

lemma getFacePoint_origin:
  "getFacePoint 0 0 w = Vec3 0 (- 1.1 * sin (pi / 30)) (cos (pi / 30) + 0.07)"
proof -
  have t: "mapRange 0 (- 1) 1 (- pi / 1.6) (pi / 1.6) = 0"
    by (simp add: mapRange_def)
  have p: "mapRange 0 (- 1) 1 (pi / 2.5) (- pi / 3) = pi / 30"
    by (simp add: mapRange_def field_simps)
  have n: "noseBridge 0 0 (x, y, z) = (x, y, z + 0.07)" for x y z
    unfolding noseBridge_def sqrt_nose_origin by (simp add: power2_eq_square)
  show ?thesis
    unfolding getFacePoint_def t p Let_def
    by (simp add: n browRidge_def cheekbones_def chin_def)
qed

lemma cos_pi_30_pos: "0 < cos (pi / 30)"
  by (rule cos_gt_zero_pi) (simp_all add: field_simps)

lemma placed_depthDemo:
  "placed depthDemo None identityMatrix 0 =
     [record_of (Vec3 0 (- 1.1 * sin (pi / 30)) (cos (pi / 30) + 0.07))
                (snd (resolve depthDemo None identityMatrix 0 0))
                (scaleBase depthDemo + seededRandom 0 * scaleVar depthDemo)
                (ColorHSL 0.5 0.8 (mapRange (cos (pi / 30) + 0.07) 0 1.5 0.2 1.0 * 0.8))]"
proof -
  have c: "candidate (distribution depthDemo) (density depthDemo) 0 = (0, 0)"
    using candidate_spiral_first by (simp add: depthDemo_def DEFAULT_CONFIG_def)
  have z: "zone depthDemo = Full" "\<not> symmetry depthDemo" "colorMode depthDemo = Depth"
    "offset depthDemo = 0"
    by (simp_all add: depthDemo_def DEFAULT_CONFIG_def)
  have r: "fst (resolve depthDemo None identityMatrix 0 0) =
             Vec3 0 (- 1.1 * sin (pi / 30)) (cos (pi / 30) + 0.07)"
    by (simp add: resolve_def getFacePoint_origin z addVectors_def multiplyScalar_def Let_def)
  obtain n where pn: "resolve depthDemo None identityMatrix 0 0 =
      (Vec3 0 (- 1.1 * sin (pi / 30)) (cos (pi / 30) + 0.07), n)"
    using r by (cases "resolve depthDemo None identityMatrix 0 0") auto
  show ?thesis
    unfolding placed_def c using eyeCutout_origin
    by (simp add: z pn checkZone_def deriveColor_def Let_def)
qed

text \<open>
  C5, as the specification states it, fails: the lightness passed to \<open>setHSL\<close> is the
  mapped depth times 0.8. For the single sample of \<open>depthDemo\<close>, at \<open>(u, v) = (0, 0)\<close>,
  the position has \<open>z = cos (\<pi>/30) + 0.07\<close>, and the lightness of its colour differs from
  \<open>z\<close> mapped from \<open>[0, 1.5]\<close> to \<open>[0.2, 1.0]\<close>.
\<close>

theorem depth_lightness_counterexample:
  "colorMode depthDemo = Depth \<and>
   length (instanceSet (regenerate depthDemo None identityMatrix (freshScene 2))) = 1 \<and>
   vz (position (instanceSet (regenerate depthDemo None identityMatrix (freshScene 2)) ! 0)) =
     cos (pi / 30) + 0.07 \<and>
   color (instanceSet (regenerate depthDemo None identityMatrix (freshScene 2)) ! 0) =
     ColorHSL 0.5 0.8 (mapRange (cos (pi / 30) + 0.07) 0 1.5 0.2 1.0 * 0.8) \<and>
   mapRange (cos (pi / 30) + 0.07) 0 1.5 0.2 1.0 * 0.8 \<noteq>
     mapRange (cos (pi / 30) + 0.07) 0 1.5 0.2 1.0"
proof -
  have b: "meshRef (freshScene 2) \<noteq> None" by (simp add: freshScene_def)
  have d: "density depthDemo = 1" by (simp add: depthDemo_def)
  have i: "instanceSet (regenerate depthDemo None identityMatrix (freshScene 2)) =
             placed depthDemo None identityMatrix 0"
    unfolding instanceSet_regenerate [OF b] d by simp
  have "0 < (cos (pi / 30) + 0.07) * (8 / 15) + 0.2"
    using cos_pi_30_pos by (intro add_pos_pos mult_pos_pos) simp_all
  moreover have "mapRange (cos (pi / 30) + 0.07) 0 1.5 0.2 1.0 =
      (cos (pi / 30) + 0.07) * (8 / 15) + 0.2"
    by (simp add: mapRange_def field_simps)
  ultimately have m: "0 < mapRange (cos (pi / 30) + 0.07) 0 1.5 0.2 1.0"
    by (simp only:)
  have "colorMode depthDemo = Depth" by (simp add: depthDemo_def DEFAULT_CONFIG_def)
  then show ?thesis
    unfolding i placed_depthDemo using m by (simp add: record_of_def)
qed

lemma mapRange_depth: "mapRange z 0 1.5 0.2 1.0 * 0.8 = mapRange z 0 1.5 0.16 0.8"
  by (simp add: mapRange_def field_simps)

lemma placed_depth:
  assumes "colorMode config = Depth"
  shows "\<forall>inst \<in> set (placed config g M i).
           color inst = ColorHSL 0.5 0.8 (mapRange (vz (position inst)) 0 1.5 0.2 1.0 * 0.8)"
proof -
  obtain u v where uv: "candidate (distribution config) (density config) i = (u, v)"
    by (cases "candidate (distribution config) (density config) i") auto
  obtain p n where pn: "resolve config g M u v = (p, n)"
    by (cases "resolve config g M u v") auto
  show ?thesis
    using assms
    by (simp add: placed_def uv pn Let_def record_of_def mirrorX_def deriveColor_def)
qed

text \<open>
  C5, amended. In colour mode Depth every generated instance has the colour
  \<open>setHSL(0.5, 0.8, l)\<close> where the lightness \<open>l\<close> is 0.8 times the \<open>z\<close> coordinate of the
  instance's position (after the offset along the normal) mapped linearly from
  \<open>[0, 1.5]\<close> to \<open>[0.2, 1.0]\<close>; that is, \<open>z\<close> mapped linearly from \<open>[0, 1.5]\<close> to
  \<open>[0.16, 0.8]\<close>.
\<close>

theorem depth_color_lightness:
  assumes "colorMode config = Depth" and "meshRef s \<noteq> None"
  shows "\<forall>inst \<in> set (instanceSet (regenerate config customMesh customMeshMatrix s)).
           color inst = ColorHSL 0.5 0.8 (mapRange (vz (position inst)) 0 1.5 0.2 1.0 * 0.8) \<and>
           mapRange (vz (position inst)) 0 1.5 0.2 1.0 * 0.8 =
             mapRange (vz (position inst)) 0 1.5 0.16 0.8"
  unfolding instanceSet_regenerate [OF assms(2)]
  using placed_depth [OF assms(1)] mapRange_depth by auto

theorem depth_color_lightness_witness:
  "colorMode depthDemo = Depth \<and> meshRef (freshScene 2) \<noteq> None \<and>
   color (instanceSet (regenerate depthDemo None identityMatrix (freshScene 2)) ! 0) =
     ColorHSL 0.5 0.8 (mapRange (cos (pi / 30) + 0.07) 0 1.5 0.16 0.8)"
proof -
  have a: "colorMode depthDemo = Depth" by (simp add: depthDemo_def DEFAULT_CONFIG_def)
  have b: "meshRef (freshScene 2) \<noteq> None" by (simp add: freshScene_def)
  have d: "density depthDemo = 1" by (simp add: depthDemo_def)
  have i: "instanceSet (regenerate depthDemo None identityMatrix (freshScene 2)) =
             placed depthDemo None identityMatrix 0"
    unfolding instanceSet_regenerate [OF b] d by simp
  have e: "instanceSet (regenerate depthDemo None identityMatrix (freshScene 2)) ! 0
             \<in> set (instanceSet (regenerate depthDemo None identityMatrix (freshScene 2)))"
    unfolding i placed_depthDemo by simp
  have z: "vz (position (instanceSet (regenerate depthDemo None identityMatrix (freshScene 2)) ! 0))
             = cos (pi / 30) + 0.07"
    unfolding i placed_depthDemo by (simp add: record_of_def)
  show ?thesis
    using depth_color_lightness [OF a b, of None identityMatrix] e a b z by metis
qed

subsection \<open>Candidates outside the domain\<close>

text \<open>
  A lower bound for the sine of the spiral angle of index 6, \<open>6 \<times> 2.39996 = 14.39976\<close>,
  from the Taylor polynomials of the cosine: they place \<open>\<pi>\<close> between 3.1222 and 3.2777,
  hence \<open>14.39976 - 9\<pi>/2\<close> within \<open>0.35\<close> of 0.
\<close>

lemma cos_taylor_bound:
  "\<bar>cos x - (\<Sum>m<n. cos_coeff m * x ^ m)\<bar> \<le> \<bar>x\<bar> ^ n / fact n" for x :: real
proof -
  obtain t where t: "cos x = (\<Sum>m<n. cos_coeff m * x ^ m) +
      (cos (t + 1/2 * real n * pi) / fact n) * x ^ n"
    using Maclaurin_cos_expansion [of x n] by blast
  have "\<bar>cos x - (\<Sum>m<n. cos_coeff m * x ^ m)\<bar> =
        \<bar>cos (t + 1/2 * real n * pi)\<bar> * (\<bar>x\<bar> ^ n / fact n)"
    by (simp add: t abs_mult power_abs)
  also have "\<dots> \<le> 1 * (\<bar>x\<bar> ^ n / fact n)"
    by (intro mult_right_mono) simp_all
  finally show ?thesis by simp
qed

lemma sum_lessThan_2: "(\<Sum>m<2. f m) = f 0 + f (1::nat)" for f :: "nat \<Rightarrow> real"
  by (simp add: numeral_2_eq_2)

lemma sum_lessThan_4: "(\<Sum>m<4. f m) = f 0 + f 1 + f 2 + f (3::nat)" for f :: "nat \<Rightarrow> real"
  by (simp add: eval_nat_numeral)

lemma sum_lessThan_6:
  "(\<Sum>m<6. f m) = f 0 + f 1 + f 2 + f 3 + f 4 + f (5::nat)" for f :: "nat \<Rightarrow> real"
  by (simp add: eval_nat_numeral)

lemma cos_lower_2: "1 - x\<^sup>2 / 2 \<le> cos x" for x :: real
proof -
  have s: "(\<Sum>m<2. cos_coeff m * x ^ m) = 1"
    by (simp add: sum_lessThan_2 cos_coeff_def)
  have "\<bar>cos x - (\<Sum>m<2. cos_coeff m * x ^ m)\<bar> \<le> \<bar>x\<bar> ^ 2 / fact 2"
    by (rule cos_taylor_bound)
  then have "\<bar>cos x - 1\<bar> \<le> \<bar>x\<bar> ^ 2 / fact 2" unfolding s .
  moreover have "\<bar>x\<bar> ^ 2 / fact 2 = x\<^sup>2 / 2" by (simp add: fact_2)
  ultimately have "\<bar>cos x - 1\<bar> \<le> x\<^sup>2 / 2" by (simp only:)
  then show ?thesis by linarith
qed

lemma cos_upper_4: "cos x \<le> 1 - x\<^sup>2 / 2 + x ^ 4 / 24" for x :: real
proof -
  have s: "(\<Sum>m<4. cos_coeff m * x ^ m) = 1 - x\<^sup>2 / 2"
    by (simp add: sum_lessThan_4 cos_coeff_def fact_numeral)
  have "\<bar>cos x - (\<Sum>m<4. cos_coeff m * x ^ m)\<bar> \<le> \<bar>x\<bar> ^ 4 / fact 4"
    by (rule cos_taylor_bound)
  then have "\<bar>cos x - (1 - x\<^sup>2 / 2)\<bar> \<le> \<bar>x\<bar> ^ 4 / fact 4" unfolding s .
  moreover have "\<bar>x\<bar> ^ 4 / fact 4 = x ^ 4 / 24" by (simp add: fact_numeral)
  ultimately have "\<bar>cos x - (1 - x\<^sup>2 / 2)\<bar> \<le> x ^ 4 / 24" by (simp only:)
  then show ?thesis by linarith
qed

lemma cos_lower_6: "1 - x\<^sup>2 / 2 + x ^ 4 / 24 - x ^ 6 / 720 \<le> cos x" for x :: real
proof -
  have s: "(\<Sum>m<6. cos_coeff m * x ^ m) = 1 - x\<^sup>2 / 2 + x ^ 4 / 24"
    by (simp add: sum_lessThan_6 cos_coeff_def fact_numeral)
  have "\<bar>cos x - (\<Sum>m<6. cos_coeff m * x ^ m)\<bar> \<le> \<bar>x\<bar> ^ 6 / fact 6"
    by (rule cos_taylor_bound)
  then have "\<bar>cos x - (1 - x\<^sup>2 / 2 + x ^ 4 / 24)\<bar> \<le> \<bar>x\<bar> ^ 6 / fact 6" unfolding s .
  moreover have "\<bar>x\<bar> ^ 6 / fact 6 = x ^ 6 / 720" by (simp add: fact_numeral)
  ultimately have "\<bar>cos x - (1 - x\<^sup>2 / 2 + x ^ 4 / 24)\<bar> \<le> x ^ 6 / 720" by (simp only:)
  then show ?thesis by linarith
qed

lemma pi_lower: "3.1222 < pi"
proof -
  have "0 < 1 - (1.5611::real)\<^sup>2 / 2 + 1.5611 ^ 4 / 24 - 1.5611 ^ 6 / 720"
    by (simp add: power2_eq_square power4_eq_xxxx eval_nat_numeral)
  then have p: "0 < cos (1.5611::real)"
    using cos_lower_6 [of "1.5611"] by linarith
  have "1.5611 < pi / 2"
  proof (rule ccontr)
    assume "\<not> 1.5611 < pi / 2"
    then have h: "pi / 2 \<le> 1.5611" by simp
    have "(1.5611::real) \<le> pi" using pi_ge_two by simp
    then have "cos 1.5611 \<le> cos (pi / 2)"
      using h by (intro cos_monotone_0_pi_le) simp_all
    then show False using p by simp
  qed
  then show ?thesis by simp
qed

lemma pi_upper: "pi < 3.2777"
proof -
  have "1 - (1.63885::real)\<^sup>2 / 2 + 1.63885 ^ 4 / 24 < 0"
    by (simp add: power2_eq_square power4_eq_xxxx)
  then have n: "cos (1.63885::real) < 0"
    using cos_upper_4 [of "1.63885"] by linarith
  have "pi / 2 < 1.63885"
  proof (rule ccontr)
    assume "\<not> pi / 2 < 1.63885"
    then have "1.63885 \<le> pi / 2" by simp
    then have "0 \<le> cos (1.63885::real)"
      by (intro cos_ge_zero) simp_all
    then show False using n by simp
  qed
  then show ?thesis by simp
qed

lemma sin_spiral_6: "0.93875 \<le> sin (14.39976::real)"
proof -
  define y where "y = 14.39976 - 9 * pi / 2"
  have "y \<le> 0.35" "- 0.35 \<le> y"
    unfolding y_def using pi_lower pi_upper by simp_all
  then have y: "\<bar>y\<bar> \<le> 0.35" by (simp only: abs_le_iff) simp
  have "sin (14.39976::real) = cos (pi / 2 - 14.39976)"
    using sin_cos_eq [of "14.39976::real"] by simp
  also have "\<dots> = cos (14.39976 - pi / 2)"
    using cos_minus [of "14.39976 - pi / 2"] by simp
  also have "14.39976 - pi / 2 = y + 2 * pi + 2 * pi" by (simp add: y_def)
  also have "cos (y + 2 * pi + 2 * pi) = cos y"
    by (simp only: cos_periodic)
  finally have e: "sin (14.39976::real) = cos y" .
  have "y\<^sup>2 \<le> 0.35\<^sup>2"
    using y by (metis abs_le_square_iff abs_of_nonneg order.trans abs_ge_zero zero_le_numeral
        less_eq_real_def power2_abs abs_numeral)
  then have "1 - 0.35\<^sup>2 / 2 \<le> 1 - y\<^sup>2 / 2" by simp
  also have "\<dots> \<le> cos y" by (rule cos_lower_2)
  finally show ?thesis unfolding e by (simp add: power2_eq_square)
qed

lemma sqrt_6_7: "0.9258 \<le> sqrt 6 / sqrt 7"
proof -
  have "(0.9258::real)\<^sup>2 \<le> 6 / 7" by (simp add: power2_eq_square)
  then have "0.9258 \<le> sqrt (6 / 7)" by (rule real_le_rsqrt)
  then show ?thesis by (simp add: real_sqrt_divide)
qed

lemma spiral_overshoot: "1 < snd (candidate Spiral 7 6)"
proof -
  have a: "real 6 * 2.39996 = (14.39976::real)" by simp
  have v: "snd (candidate Spiral 7 6) = sqrt 6 / sqrt 7 * sin 14.39976 * 1.2"
    unfolding candidate_def Let_def a [symmetric] by simp
  have "0.9258 * 0.93875 \<le> sqrt 6 / sqrt 7 * sin (14.39976::real)"
    using sqrt_6_7 sin_spiral_6 by (intro mult_mono) simp_all
  then have "0.9258 * 0.93875 * 1.2 \<le> sqrt 6 / sqrt 7 * sin (14.39976::real) * 1.2"
    by simp
  moreover have "(1::real) < 0.9258 * 0.93875 * 1.2" by simp
  ultimately show ?thesis unfolding v by linarith
qed

lemma floor_sqrt_120: "\<lfloor>sqrt 120\<rfloor> = 10"
proof -
  have "10 \<le> sqrt 120" by (rule real_le_rsqrt) simp
  moreover have "sqrt 120 < 11" by (rule real_less_lsqrt) simp_all
  ultimately show ?thesis by (simp add: floor_eq_iff)
qed

text \<open>
  C6, as the specification states it, fails under two of the three laws. Grid, with the
  density 120 of the preset Cyber: \<open>dim = 10\<close>, and the last index 119 falls in row 11, so
  its candidate is \<open>(u, v) = (0.8, 1.2)\<close>. Spiral, with density 7: for index 6 the
  stretched \<open>v\<close> exceeds 1.
\<close>

theorem candidate_domain_counterexample:
  "(1::nat) \<le> 120 \<and> (119::nat) < 120 \<and> candidate Grid 120 119 = (4 / 5, 6 / 5) \<and>
   (1::nat) \<le> 7 \<and> (6::nat) < 7 \<and> 1 < snd (candidate Spiral 7 6)"
  using spiral_overshoot
  by (simp add: candidate_def floor_sqrt_120 mapRange_def Let_def)

subsection \<open>Bounds on the candidate coordinates\<close>

lemma mapRange_unit: "mapRange t 0 1 (- 1) 1 = 2 * t - 1"
  by (simp add: mapRange_def)

lemma mapRange_grid: "0 < d \<Longrightarrow> mapRange c 0 d (- 1) 1 = 2 * c / d - 1"
  by (simp add: mapRange_def)

lemma seededRandom_range: "0 \<le> seededRandom x \<and> seededRandom x < 1"
  by (simp add: seededRandom_def Let_def) linarith

lemma candidate_random_bounds:
  "- 1 \<le> fst (candidate Random cnt i) \<and> fst (candidate Random cnt i) \<le> 1 \<and>
   - 1 \<le> snd (candidate Random cnt i) \<and> snd (candidate Random cnt i) \<le> 1"
  using seededRandom_range [of "real i"] seededRandom_range [of "real i + 1000"]
  by (simp add: candidate_def mapRange_unit)

lemma spiral_radius:
  assumes "i < cnt"
  shows "0 \<le> sqrt (real i) / sqrt (real cnt) \<and> sqrt (real i) / sqrt (real cnt) \<le> 1"
proof -
  have "sqrt (real i) \<le> sqrt (real cnt)" using assms by simp
  moreover have "0 < sqrt (real cnt)" using assms by simp
  ultimately show ?thesis by simp
qed

lemma scaled_unit_bound:
  fixes r t :: real
  assumes "0 \<le> r" "r \<le> 1" "\<bar>t\<bar> \<le> 1"
  shows "\<bar>r * t\<bar> \<le> 1"
proof -
  have "\<bar>r * t\<bar> = r * \<bar>t\<bar>" using assms(1) by (simp add: abs_mult)
  also have "\<dots> \<le> 1 * 1" using assms by (intro mult_mono) simp_all
  finally show ?thesis by simp
qed

lemma candidate_spiral_bounds:
  assumes "i < cnt"
  shows "\<bar>fst (candidate Spiral cnt i)\<bar> \<le> 1 \<and> \<bar>snd (candidate Spiral cnt i)\<bar> \<le> 1.2"
proof -
  let ?r = "sqrt (real i) / sqrt (real cnt)"
  have r: "0 \<le> ?r" "?r \<le> 1" using spiral_radius [OF assms] by simp_all
  define a where "a = ?r * cos (real i * 2.39996)"
  define b where "b = ?r * sin (real i * 2.39996)"
  have u: "\<bar>a\<bar> \<le> 1"
    unfolding a_def by (rule scaled_unit_bound [OF r]) simp
  have v: "\<bar>b\<bar> \<le> 1"
    unfolding b_def by (rule scaled_unit_bound [OF r]) simp
  have "\<bar>b * 1.2\<bar> = \<bar>b\<bar> * 1.2" by (simp add: abs_mult)
  then have w: "\<bar>b * 1.2\<bar> \<le> 1.2" using v by linarith
  have "candidate Spiral cnt i = (a, b * 1.2)"
    by (simp add: candidate_def Let_def a_def b_def)
  then show ?thesis using u w by simp
qed

lemma grid_dim_pos:
  assumes "1 \<le> cnt"
  shows "1 \<le> \<lfloor>sqrt (real cnt)\<rfloor>"
proof -
  have "1 \<le> sqrt (real cnt)" using assms by simp
  then show ?thesis by (simp add: le_floor_iff)
qed

lemma candidate_grid_bounds:
  assumes "1 \<le> cnt"
  shows "- 1 \<le> fst (candidate Grid cnt i) \<and> fst (candidate Grid cnt i) \<le> 1 \<and>
         - 1 \<le> snd (candidate Grid cnt i) \<and>
         (i < (nat \<lfloor>sqrt (real cnt)\<rfloor>)\<^sup>2 \<longrightarrow> snd (candidate Grid cnt i) \<le> 1)"
proof -
  define d where "d = \<lfloor>sqrt (real cnt)\<rfloor>"
  have d1: "1 \<le> d" unfolding d_def by (rule grid_dim_pos [OF assms])
  then have dpos: "0 < real_of_int d" by simp
  define c where "c = real (i mod nat d)"
  define row where "row = real_of_int \<lfloor>real i / real_of_int d\<rfloor>"
  have "i mod nat d < nat d" using d1 by simp
  then have "real (i mod nat d) < real (nat d)" by (simp only: of_nat_less_iff)
  then have c: "0 \<le> c" "c \<le> real_of_int d" using d1 by (simp_all add: c_def)
  have row0: "0 \<le> row" unfolding row_def using dpos by simp
  have fu: "fst (candidate Grid cnt i) = 2 * c / real_of_int d - 1"
    using dpos by (simp add: candidate_def Let_def d_def [symmetric] c_def mapRange_grid)
  have fv: "snd (candidate Grid cnt i) = 2 * row / real_of_int d - 1"
    using dpos by (simp add: candidate_def Let_def d_def [symmetric] row_def mapRange_grid)
  have u1: "- 1 \<le> 2 * c / real_of_int d - 1" using c dpos by simp
  have u2: "2 * c / real_of_int d - 1 \<le> 1" using c dpos by (simp add: field_simps)
  have v1: "- 1 \<le> 2 * row / real_of_int d - 1" using row0 dpos by simp
  have v2: "2 * row / real_of_int d - 1 \<le> 1" if "i < (nat d)\<^sup>2"
  proof -
    have "real i < real ((nat d)\<^sup>2)" using that by (simp only: of_nat_less_iff)
    then have "real i < real_of_int d * real_of_int d"
      using d1 by (simp add: power2_eq_square)
    then have "real i / real_of_int d < real_of_int d"
      using dpos by (simp add: field_simps)
    then have "\<lfloor>real i / real_of_int d\<rfloor> < d" by (simp add: floor_less_iff)
    then have "row \<le> real_of_int d" by (simp add: row_def)
    then show ?thesis using dpos by (simp add: field_simps)
  qed
  show ?thesis unfolding fu fv d_def [symmetric] using u1 u2 v1 v2 by blast
qed

text \<open>
  C6, amended. For every density \<open>cnt \<ge> 1\<close> and index \<open>i < cnt\<close>, the candidate \<open>(u, v)\<close>
  of step 1 has \<open>u\<close> in \<open>[-1, 1]\<close> under each of the three laws. Under Random, \<open>v\<close> is in
  \<open>[-1, 1]\<close> as well. Under Spiral, where \<open>v\<close> is stretched by 1.2, \<open>v\<close> is in
  \<open>[-1.2, 1.2]\<close>. Under Grid, \<open>v \<ge> -1\<close>, and \<open>v \<le> 1\<close> for the indices of the first \<open>dim\<close>
  rows, \<open>i < dim\<^sup>2\<close> with \<open>dim = \<lfloor>sqrt cnt\<rfloor>\<close>: all indices when the density is a perfect
  square.
\<close>

theorem candidate_bounds:
  assumes "1 \<le> cnt" and "i < cnt"
  shows "- 1 \<le> fst (candidate law cnt i) \<and> fst (candidate law cnt i) \<le> 1 \<and>
         (law = Random \<longrightarrow> - 1 \<le> snd (candidate law cnt i) \<and> snd (candidate law cnt i) \<le> 1) \<and>
         (law = Spiral \<longrightarrow> \<bar>snd (candidate law cnt i)\<bar> \<le> 1.2) \<and>
         (law = Grid \<longrightarrow> - 1 \<le> snd (candidate law cnt i) \<and>
            (i < (nat \<lfloor>sqrt (real cnt)\<rfloor>)\<^sup>2 \<longrightarrow> snd (candidate law cnt i) \<le> 1))"
proof (cases law)
  case Grid
  then show ?thesis using candidate_grid_bounds [OF assms(1), of i] by simp
next
  case Spiral
  then show ?thesis using candidate_spiral_bounds [OF assms(2)] by (simp add: abs_le_iff)
next
  case Random
  then show ?thesis using candidate_random_bounds [of cnt i] by simp
qed

lemma floor_sqrt_4: "\<lfloor>sqrt 4\<rfloor> = 2"
proof -
  have "sqrt 4 = 2" using real_sqrt_abs [of 2] by simp
  then show ?thesis by simp
qed

theorem candidate_bounds_witness:
  "(1::nat) \<le> 4 \<and> (3::nat) < 4 \<and> 3 < (nat \<lfloor>sqrt (real 4)\<rfloor>)\<^sup>2 \<and>
   candidate Grid 4 3 = (0, 0)"
  using candidate_bounds [of 4 3 Grid]
  by (simp add: candidate_def floor_sqrt_4 mapRange_def Let_def)

section \<open>BindingEngine\<close>

subsection \<open>The bind phase on finite numbers\<close>

lemma closest_fold_bounds:
  "snd st = - 1 \<or> (0 \<le> snd st \<and> snd st < int n) \<Longrightarrow> set ks \<subseteq> {0..<n} \<Longrightarrow>
   snd (fold (closestVisit p ls) ks st) = - 1 \<or>
   (0 \<le> snd (fold (closestVisit p ls) ks st) \<and> snd (fold (closestVisit p ls) ks st) < int n)"
proof (induction ks arbitrary: st)
  case Nil
  then show ?case by simp
next
  case (Cons k ks)
  have "snd (closestVisit p ls k st) = - 1 \<or>
        (0 \<le> snd (closestVisit p ls k st) \<and> snd (closestVisit p ls k st) < int n)"
    using Cons.prems by (cases st) (auto simp: closestVisit_def Let_def)
  then show ?case using Cons.IH [of "closestVisit p ls k st"] Cons.prems(2) by simp
qed

lemma closest_fold_found:
  "snd st \<noteq> - 1 \<Longrightarrow> snd (fold (closestVisit p ls) ks st) \<noteq> - 1"
proof (induction ks arbitrary: st)
  case Nil
  then show ?case by simp
next
  case (Cons k ks)
  have "snd (closestVisit p ls k st) \<noteq> - 1"
    using Cons.prems by (cases st) (auto simp: closestVisit_def Let_def)
  then show ?case using Cons.IH [of "closestVisit p ls k st"] by simp
qed

lemma closestLandmark_in_range:
  assumes "ls \<noteq> []"
  shows "0 \<le> closestLandmark p ls \<and> closestLandmark p ls < int (length ls)"
proof -
  have pos: "0 < length ls" using assms by simp
  have u: "[0..<length ls] = 0 # [1..<length ls]"
    using pos by (simp add: upt_rec)
  have first: "closestVisit p ls 0 (PosInfinity, - 1) = (Number (distanceToSquared p (ls ! 0)), 0)"
    by (simp add: closestVisit_def Let_def)
  define st where "st = (Number (distanceToSquared p (ls ! 0)), 0::int)"
  define r where "r = snd (fold (closestVisit p ls) [1..<length ls] st)"
  have a: "r \<noteq> - 1"
    unfolding r_def by (rule closest_fold_found) (simp add: st_def)
  have "snd st = - 1 \<or> (0 \<le> snd st \<and> snd st < int (length ls))"
    using pos by (simp add: st_def)
  moreover have "set [1..<length ls] \<subseteq> {0..<length ls}" by auto
  ultimately have b: "r = - 1 \<or> (0 \<le> r \<and> r < int (length ls))"
    unfolding r_def by (rule closest_fold_bounds)
  have "closestLandmark p ls = r"
    unfolding closestLandmark_def r_def st_def u using first by simp
  then show ?thesis using a b by auto
qed

lemma bindInstance_ok:
  assumes "ls \<noteq> []"
  shows "\<exists>a. bindInstance ls inst = Inr a \<and> 0 \<le> landmarkIndex a \<and>
             landmarkIndex a < int (length ls) \<and>
             landmarkIndex a = closestLandmark (position inst) ls \<and>
             anchorOffset a = subVectors (position inst) (ls ! nat (landmarkIndex a)) \<and>
             basePos a = position inst"
  using closestLandmark_in_range [OF assms, of "position inst"]
  by (auto simp add: bindInstance_def elementAt_def Let_def)

lemma bindPhase_ok:
  assumes "ls \<noteq> []"
  shows "\<exists>as. bindPhase ls insts = Inr as \<and> length as = length insts \<and>
          (\<forall>k < length insts. 0 \<le> landmarkIndex (as ! k) \<and>
             landmarkIndex (as ! k) < int (length ls) \<and>
             anchorOffset (as ! k) =
               subVectors (position (insts ! k)) (ls ! nat (landmarkIndex (as ! k))))"
proof (induction insts)
  case Nil
  then show ?case by simp
next
  case (Cons inst insts)
  obtain a where a: "bindInstance ls inst = Inr a" "0 \<le> landmarkIndex a"
      "landmarkIndex a < int (length ls)"
      "anchorOffset a = subVectors (position inst) (ls ! nat (landmarkIndex a))"
    using bindInstance_ok [OF assms, of inst] by blast
  obtain as where as: "bindPhase ls insts = Inr as" "length as = length insts"
      "\<forall>k < length insts. 0 \<le> landmarkIndex (as ! k) \<and>
             landmarkIndex (as ! k) < int (length ls) \<and>
             anchorOffset (as ! k) =
               subVectors (position (insts ! k)) (ls ! nat (landmarkIndex (as ! k)))"
    using Cons.IH by blast
  have "bindPhase ls (inst # insts) = Inr (a # as)" using a(1) as(1) by simp
  moreover have "length (a # as) = length (inst # insts)" using as(2) by simp
  moreover have "\<forall>k < length (inst # insts). 0 \<le> landmarkIndex ((a # as) ! k) \<and>
             landmarkIndex ((a # as) ! k) < int (length ls) \<and>
             anchorOffset ((a # as) ! k) =
               subVectors (position ((inst # insts) ! k)) (ls ! nat (landmarkIndex ((a # as) ! k)))"
  proof (intro allI impI)
    fix k assume "k < length (inst # insts)"
    then show "0 \<le> landmarkIndex ((a # as) ! k) \<and>
             landmarkIndex ((a # as) ! k) < int (length ls) \<and>
             anchorOffset ((a # as) ! k) =
               subVectors (position ((inst # insts) ! k)) (ls ! nat (landmarkIndex ((a # as) ! k)))"
      using a as(3) by (cases k) auto
  qed
  ultimately show ?case by blast
qed

lemma updatePhase_result:
  assumes "\<forall>a \<in> set as. 0 \<le> landmarkIndex a \<and> landmarkIndex a < int (length ls)"
    and "i + length as \<le> length insts"
  shows "\<exists>ms ob. updatePhase ls insts as i st = Inr (ms, ob) \<and>
           (\<forall>k. ms k =
              (if i \<le> k \<and> k < i + length as
               then Some (Compose
                      (addVectors (ls ! nat (landmarkIndex (as ! (k - i)))) (anchorOffset (as ! (k - i))))
                      (FromUnitVectors (Vec3 0 1 0) (normal (insts ! k)))
                      (Vec3 (scale (insts ! k)) (scale (insts ! k)) (scale (insts ! k))))
               else fst st k))"
  using assms
proof (induction as arbitrary: i st)
  case Nil
  then show ?case by (cases st) auto
next
  case (Cons a rest)
  have la: "elementAt ls (landmarkIndex a) = Some (ls ! nat (landmarkIndex a))"
    using Cons.prems(1) by (auto simp add: elementAt_def)
  have ia: "elementAt insts (int i) = Some (insts ! i)"
    using Cons.prems(2) by (simp add: elementAt_def)
  define t where "t = Compose (addVectors (ls ! nat (landmarkIndex a)) (anchorOffset a))
                      (FromUnitVectors (Vec3 0 1 0) (normal (insts ! i)))
                      (Vec3 (scale (insts ! i)) (scale (insts ! i)) (scale (insts ! i)))"
  define ob where "ob = updateMatrix
                          ((snd st)\<lparr>objPosition := addVectors (ls ! nat (landmarkIndex a)) (anchorOffset a),
                                    objScale := Vec3 (scale (insts ! i)) (scale (insts ! i)) (scale (insts ! i)),
                                    objQuaternion := FromUnitVectors (Vec3 0 1 0) (normal (insts ! i))\<rparr>)"
  have om: "objMatrix ob = t" by (simp add: ob_def t_def updateMatrix_def)
  have step: "updatePhase ls insts (a # rest) i st =
                updatePhase ls insts rest (Suc i) ((fst st)(i \<mapsto> t), ob)"
    by (simp add: la ia Let_def ob_def [symmetric] om)
  have p1: "\<forall>a \<in> set rest. 0 \<le> landmarkIndex a \<and> landmarkIndex a < int (length ls)"
    using Cons.prems(1) by simp
  have p2: "Suc i + length rest \<le> length insts" using Cons.prems(2) by simp
  obtain ms ob' where r: "updatePhase ls insts rest (Suc i) ((fst st)(i \<mapsto> t), ob) = Inr (ms, ob')"
    and m: "\<forall>k. ms k =
              (if Suc i \<le> k \<and> k < Suc i + length rest
               then Some (Compose
                      (addVectors (ls ! nat (landmarkIndex (rest ! (k - Suc i)))) (anchorOffset (rest ! (k - Suc i))))
                      (FromUnitVectors (Vec3 0 1 0) (normal (insts ! k)))
                      (Vec3 (scale (insts ! k)) (scale (insts ! k)) (scale (insts ! k))))
               else fst ((fst st)(i \<mapsto> t), ob) k)"
    using Cons.IH [OF p1 p2, of "((fst st)(i \<mapsto> t), ob)"] by blast
  have "ms k =
              (if i \<le> k \<and> k < i + length (a # rest)
               then Some (Compose
                      (addVectors (ls ! nat (landmarkIndex ((a # rest) ! (k - i)))) (anchorOffset ((a # rest) ! (k - i))))
                      (FromUnitVectors (Vec3 0 1 0) (normal (insts ! k)))
                      (Vec3 (scale (insts ! k)) (scale (insts ! k)) (scale (insts ! k))))
               else fst st k)" for k
  proof (cases "k = i")
    case True
    then show ?thesis using m by (simp add: t_def)
  next
    case False
    show ?thesis
    proof (cases "Suc i \<le> k \<and> k < Suc i + length rest")
      case True
      then have "(a # rest) ! (k - i) = rest ! (k - Suc i)"
        by (simp add: nth_Cons') 
      then show ?thesis using m True by simp
    next
      case False
      then show ?thesis using m \<open>k \<noteq> i\<close> by auto
    qed
  qed
  then show ?case using step r by simp
qed

lemma bindPhase_set:
  assumes "ls \<noteq> []"
  shows "\<exists>as. bindPhase ls insts = Inr as \<and> length as = length insts \<and>
          (\<forall>a \<in> set as. 0 \<le> landmarkIndex a \<and> landmarkIndex a < int (length ls))"
proof -
  obtain as where as: "bindPhase ls insts = Inr as" "length as = length insts"
    "\<forall>k < length insts. 0 \<le> landmarkIndex (as ! k) \<and>
             landmarkIndex (as ! k) < int (length ls) \<and>
             anchorOffset (as ! k) =
               subVectors (position (insts ! k)) (ls ! nat (landmarkIndex (as ! k)))"
    using bindPhase_ok [OF assms, of insts] by blast
  have "\<forall>a \<in> set as. 0 \<le> landmarkIndex a \<and> landmarkIndex a < int (length ls)"
    using as(2,3) by (auto simp add: in_set_conv_nth)
  then show ?thesis using as(1,2) by blast
qed

text \<open>
  On real vectors, that is when every rest position and every landmark is finite, the
  first landmark beats the initial \<open>Infinity\<close>: against a non-empty cloud of length \<open>N\<close>
  the bind phase raises no error and returns one anchor per instance with
  \<open>0 \<le> landmarkIndex < N\<close>, and on every later cloud of length at least \<open>N\<close> the update
  phase reads in range and runs to its end.
\<close>

lemma bind_indices_in_range_finite:
  assumes "landmarks \<noteq> []"
  shows "\<exists>anchors. bindPhase landmarks instanceData = Inr anchors \<and>
           length anchors = length instanceData \<and>
           (\<forall>a \<in> set anchors. 0 \<le> landmarkIndex a \<and> landmarkIndex a < int (length landmarks)) \<and>
           (\<forall>later st. length landmarks \<le> length later \<longrightarrow>
              (\<forall>a \<in> set anchors. elementAt later (landmarkIndex a) \<noteq> None) \<and>
              (\<exists>st'. updatePhase later instanceData anchors 0 st = Inr st'))"
proof -
  obtain as where as: "bindPhase landmarks instanceData = Inr as"
    "length as = length instanceData"
    "\<forall>a \<in> set as. 0 \<le> landmarkIndex a \<and> landmarkIndex a < int (length landmarks)"
    using bindPhase_set [OF assms, of instanceData] by blast
  have "(\<forall>a \<in> set as. elementAt later (landmarkIndex a) \<noteq> None) \<and>
        (\<exists>st'. updatePhase later instanceData as 0 st = Inr st')"
    if l: "length landmarks \<le> length later" for later st
  proof
    show "\<forall>a \<in> set as. elementAt later (landmarkIndex a) \<noteq> None"
      using as(3) l by (auto simp add: elementAt_def)
    have r: "\<forall>a \<in> set as. 0 \<le> landmarkIndex a \<and> landmarkIndex a < int (length later)"
      using as(3) l by auto
    have "0 + length as \<le> length instanceData" using as(2) by simp
    from updatePhase_result [OF r this, of st]
    show "\<exists>st'. updatePhase later instanceData as 0 st = Inr st'" by blast
  qed
  then show ?thesis using as by blast
qed

subsection \<open>The bind phase on JavaScript numbers\<close>

lemma distanceToSquaredJS_ofVec3:
  "distanceToSquaredJS (ofVec3 a) (ofVec3 b) = Number (distanceToSquared a b)"
  by (simp add: distanceToSquaredJS_def distanceToSquared_def ofVec3_def Let_def)

lemma subVectorsJS_ofVec3: "subVectorsJS (ofVec3 a) (ofVec3 b) = ofVec3 (subVectors a b)"
  by (simp add: subVectorsJS_def subVectors_def ofVec3_def)

lemma elementAt_map: "elementAt (map f xs) k = map_option f (elementAt xs k)"
  by (simp add: elementAt_def)

lemma closestVisitJS_ofVec3:
  "k < length ls \<Longrightarrow>
   closestVisitJS (ofVec3 p) (map ofVec3 ls) k st = closestVisit p ls k st"
  by (cases st) (simp add: closestVisitJS_def closestVisit_def distanceToSquaredJS_ofVec3 Let_def)

lemma fold_closestVisitJS_ofVec3:
  "set ks \<subseteq> {0..<length ls} \<Longrightarrow>
   fold (closestVisitJS (ofVec3 p) (map ofVec3 ls)) ks st = fold (closestVisit p ls) ks st"
  by (induction ks arbitrary: st) (simp_all add: closestVisitJS_ofVec3)

lemma closestLandmarkJS_ofVec3:
  "closestLandmarkJS (ofVec3 p) (map ofVec3 ls) = closestLandmark p ls"
  by (simp add: closestLandmarkJS_def closestLandmark_def fold_closestVisitJS_ofVec3)

lemma bindInstanceJS_ofVec3:
  "bindInstanceJS (map ofVec3 ls) (ofVec3 (position inst)) =
     map_sum id ofAnchor (bindInstance ls inst)"
  by (cases "elementAt ls (closestLandmark (position inst) ls)")
     (simp_all add: bindInstanceJS_def bindInstance_def closestLandmarkJS_ofVec3 elementAt_map
        subVectorsJS_ofVec3 ofAnchor_def Let_def)

text \<open>
  On real vectors the bind phase on JavaScript numbers is the bind phase of \<open>useFrame\<close>
  above: the same error or the same anchors.
\<close>

lemma bindPhaseJS_ofVec3:
  "bindPhaseJS (map ofVec3 ls) (map (\<lambda>inst. ofVec3 (position inst)) insts) =
     map_sum id (map ofAnchor) (bindPhase ls insts)"
proof (induction insts)
  case Nil
  then show ?case by simp
next
  case (Cons inst insts)
  show ?case
    by (cases "bindInstance ls inst"; cases "bindPhase ls insts")
       (simp_all add: bindInstanceJS_ofVec3 Cons.IH)
qed

lemma distanceToSquaredJS_NaN: "jx p = NaN \<Longrightarrow> distanceToSquaredJS p l = NaN"
  by (simp add: distanceToSquaredJS_def Let_def)

lemma fold_closestVisitJS_NaN:
  "jx p = NaN \<Longrightarrow> fold (closestVisitJS p ls) ks st = st"
  by (induction ks arbitrary: st)
     (simp_all add: closestVisitJS_def distanceToSquaredJS_NaN Let_def split: prod.splits)

text \<open>
  A rest position with a \<open>NaN\<close> coordinate has the squared distance \<open>NaN\<close> to every
  landmark. No comparison \<open>dist < minDist\<close> succeeds, \<open>closestIndex\<close> stays \<open>-1\<close>,
  \<open>landmarks[-1]\<close> is \<open>undefined\<close>, and \<open>subVectors\<close> throws, whatever the cloud.
\<close>

lemma bindInstanceJS_NaN:
  "jx p = NaN \<Longrightarrow> closestLandmarkJS p ls = - 1 \<and> bindInstanceJS ls p = Inl TypeError"
  by (simp add: bindInstanceJS_def closestLandmarkJS_def fold_closestVisitJS_NaN elementAt_def)

text \<open>
  C10. The minimum-distance search over a non-empty cloud does not always select a valid
  index. For an instance whose rest position is \<open>(NaN, 0, 1)\<close>, as a \<open>NaN\<close> head width
  produces, and the cloud of the single landmark \<open>(0, 0, 0.9)\<close>, the search returns
  \<open>-1\<close> and the bind phase ends in a \<open>TypeError\<close>, where the claim promises an index
  \<open>0 \<le> landmarkIndex < 1\<close>. \<open>snapToMesh\<close> runs the same search and tests
  \<open>bestIndex !== -1\<close> before it reads; the bind phase reads \<open>landmarks[closestIndex]\<close>
  without that test.
\<close>

theorem bind_phase_nan_rest_position:
  "[JsVec (Number 0) (Number 0) (Number 0.9)] \<noteq> [] \<and>
   closestLandmarkJS (JsVec NaN (Number 0) (Number 1))
     [JsVec (Number 0) (Number 0) (Number 0.9)] = - 1 \<and>
   bindPhaseJS [JsVec (Number 0) (Number 0) (Number 0.9)]
     [JsVec NaN (Number 0) (Number 1)] = Inl TypeError"
  using bindInstanceJS_NaN [of "JsVec NaN (Number 0) (Number 1)"
      "[JsVec (Number 0) (Number 0) (Number 0.9)]"]
  by simp

subsection \<open>Frames\<close>

lemma useFrame_bind:
  assumes "meshRef s = Some m" and "userInstances m = Some insts" and "anchorsRef s = None"
    and "ls \<noteq> []" and "bindPhase ls insts = Inr as"
  shows "useFrame (Some ls) s = Inr (s\<lparr>anchorsRef := Some as\<rparr>)"
  using assms by (simp add: useFrame_def)

lemma useFrame_update:
  assumes "meshRef s = Some m" and "userInstances m = Some insts" and "anchorsRef s = Some as"
    and "ls \<noteq> []" and "updatePhase ls insts as 0 (instanceMatrix m, tempObj s) = Inr (ms, ob)"
  shows "useFrame (Some ls) s = Inr (s\<lparr>meshRef := Some (m\<lparr>instanceMatrix := ms\<rparr>), tempObj := ob\<rparr>)"
  using assms by (simp add: useFrame_def)

text \<open>
  C3. Let the bind phase run on a mounted, unbound scene against a non-empty cloud, and let
  the next frame supply the same cloud with every landmark translated by \<open>delta\<close>. Then
  both frames succeed, and the update phase places every instance at its rest position
  plus \<open>delta\<close>.
\<close>

theorem update_under_translation:
  assumes "meshRef s = Some m" and "userInstances m = Some insts" and "anchorsRef s = None"
    and "landmarks \<noteq> []"
  shows "\<exists>s1 s2. useFrame (Some landmarks) s = Inr s1 \<and> anchorsRef s1 \<noteq> None \<and>
           useFrame (Some (map (\<lambda>l. addVectors l delta) landmarks)) s1 = Inr s2 \<and>
           (\<forall>k < length insts.
              renderedPosition k s2 = Some (addVectors (position (insts ! k)) delta))"
proof -
  let ?moved = "map (\<lambda>l. addVectors l delta) landmarks"
  obtain as where as: "bindPhase landmarks insts = Inr as" "length as = length insts"
    "\<forall>k < length insts. 0 \<le> landmarkIndex (as ! k) \<and>
             landmarkIndex (as ! k) < int (length landmarks) \<and>
             anchorOffset (as ! k) =
               subVectors (position (insts ! k)) (landmarks ! nat (landmarkIndex (as ! k)))"
    using bindPhase_ok [OF assms(4), of insts] by blast
  define s1 where "s1 = s\<lparr>anchorsRef := Some as\<rparr>"
  have f1: "useFrame (Some landmarks) s = Inr s1"
    unfolding s1_def by (rule useFrame_bind [OF assms as(1)])
  have r: "\<forall>a \<in> set as. 0 \<le> landmarkIndex a \<and> landmarkIndex a < int (length ?moved)"
    using as(2,3) by (auto simp add: in_set_conv_nth)
  have "0 + length as \<le> length insts" using as(2) by simp
  from updatePhase_result [OF r this, of "(instanceMatrix m, tempObj s1)"]
  obtain ms ob where u: "updatePhase ?moved insts as 0 (instanceMatrix m, tempObj s1) = Inr (ms, ob)"
    and m: "\<forall>k. ms k =
              (if 0 \<le> k \<and> k < 0 + length as
               then Some (Compose
                      (addVectors (?moved ! nat (landmarkIndex (as ! (k - 0)))) (anchorOffset (as ! (k - 0))))
                      (FromUnitVectors (Vec3 0 1 0) (normal (insts ! k)))
                      (Vec3 (scale (insts ! k)) (scale (insts ! k)) (scale (insts ! k))))
               else fst (instanceMatrix m, tempObj s1) k)"
    by blast
  define s2 where "s2 = s1\<lparr>meshRef := Some (m\<lparr>instanceMatrix := ms\<rparr>), tempObj := ob\<rparr>"
  have m1: "meshRef s1 = Some m" "anchorsRef s1 = Some as"
    using assms(1) by (simp_all add: s1_def)
  have ne: "?moved \<noteq> []" using assms(4) by simp
  have f2: "useFrame (Some ?moved) s1 = Inr s2"
    unfolding s2_def by (rule useFrame_update [OF m1(1) assms(2) m1(2) ne u])
  have "renderedPosition k s2 = Some (addVectors (position (insts ! k)) delta)"
    if k: "k < length insts" for k
  proof -
    have i: "0 \<le> landmarkIndex (as ! k)" "nat (landmarkIndex (as ! k)) < length landmarks"
      and o: "anchorOffset (as ! k) =
               subVectors (position (insts ! k)) (landmarks ! nat (landmarkIndex (as ! k)))"
      using as(3) k by auto
    have "ms k = Some (Compose
                      (addVectors (?moved ! nat (landmarkIndex (as ! k))) (anchorOffset (as ! k)))
                      (FromUnitVectors (Vec3 0 1 0) (normal (insts ! k)))
                      (Vec3 (scale (insts ! k)) (scale (insts ! k)) (scale (insts ! k))))"
      using m k as(2) by simp
    then have "renderedPosition k s2 =
        Some (addVectors (?moved ! nat (landmarkIndex (as ! k))) (anchorOffset (as ! k)))"
      by (simp add: renderedPosition_def s2_def)
    also have "addVectors (?moved ! nat (landmarkIndex (as ! k))) (anchorOffset (as ! k)) =
        addVectors (position (insts ! k)) delta"
      using i(2) by (simp add: o addVectors_def subVectors_def)
    finally show ?thesis .
  qed
  then show ?thesis using f1 f2 m1(2) by auto
qed

theorem update_under_translation_witness:
  "meshRef demoScene = Some demoMesh \<and> userInstances demoMesh = Some [demoInstance] \<and>
   anchorsRef demoScene = None \<and> [Vec3 0 0 0.9] \<noteq> [] \<and>
   map_sum id (renderedPosition 0)
     (frames [Some [Vec3 0 0 0.9], Some (map (\<lambda>l. addVectors l (Vec3 1 2 3)) [Vec3 0 0 0.9])]
        demoScene) = Inr (Some (Vec3 1 2 4))"
proof -
  have a: "meshRef demoScene = Some demoMesh" by (simp add: demoScene_def)
  have b: "userInstances demoMesh = Some [demoInstance]" by (simp add: demoMesh_def)
  have c: "anchorsRef demoScene = None" by (simp add: demoScene_def)
  have d: "[Vec3 0 0 0.9] \<noteq> []" by simp
  obtain s1 s2 where f: "useFrame (Some [Vec3 0 0 0.9]) demoScene = Inr s1"
    "useFrame (Some (map (\<lambda>l. addVectors l (Vec3 1 2 3)) [Vec3 0 0 0.9])) s1 = Inr s2"
    "\<forall>k < length [demoInstance].
        renderedPosition k s2 = Some (addVectors (position ([demoInstance] ! k)) (Vec3 1 2 3))"
    using update_under_translation [OF a b c d, of "Vec3 1 2 3"] by blast
  have "renderedPosition 0 s2 = Some (Vec3 1 2 4)"
    using f(3) by (simp add: demoInstance_def record_of_def addVectors_def)
  then show ?thesis using a b c f(1,2) by simp
qed

text \<open>
  C4, as the specification states it, fails. Bind \<open>demoScene\<close> to the landmark
  \<open>(0, 0, 0.9)\<close>. A following frame without a face, be it an empty list or no list, leaves
  the binding table in place; and the frame after that, with the landmark moved to
  \<open>(1, 0, 0.9)\<close>, does not bind again: it keeps the old anchor and runs the update phase,
  which moves the instance to \<open>(1, 0, 1)\<close>.
\<close>

theorem face_loss_counterexample:
  "map_sum id anchorsRef (frames [Some [Vec3 0 0 0.9], Some []] demoScene) =
     Inr (Some [demoAnchor]) \<and>
   map_sum id anchorsRef (frames [Some [Vec3 0 0 0.9], None] demoScene) =
     Inr (Some [demoAnchor]) \<and>
   map_sum id anchorsRef (frames [Some [Vec3 0 0 0.9], Some [], Some [Vec3 1 0 0.9]] demoScene) =
     Inr (Some [demoAnchor]) \<and>
   map_sum id (renderedPosition 0)
     (frames [Some [Vec3 0 0 0.9], Some [], Some [Vec3 1 0 0.9]] demoScene) =
     Inr (Some (Vec3 1 0 1))"
proof -
  have b: "useFrame (Some [Vec3 0 0 0.9]) demoScene = Inr boundDemo"
    by (simp add: useFrame_def demoScene_def demoMesh_def boundDemo_def demoAnchor_def
        bindInstance_def closestLandmark_def closestVisit_def elementAt_def
        demoInstance_def record_of_def distanceToSquared_def subVectors_def Let_def)
  have e: "useFrame (Some []) boundDemo = Inr boundDemo"
    by (simp add: useFrame_def split: option.splits)
  have n: "useFrame None boundDemo = Inr boundDemo"
    by (simp add: useFrame_def split: option.splits)
  have a: "anchorsRef boundDemo = Some [demoAnchor]" by (simp add: boundDemo_def)
  obtain s3 where u: "useFrame (Some [Vec3 1 0 0.9]) boundDemo = Inr s3"
    "anchorsRef s3 = Some [demoAnchor]" "renderedPosition 0 s3 = Some (Vec3 1 0 1)"
    by (simp add: useFrame_def demoScene_def demoMesh_def boundDemo_def demoAnchor_def
        elementAt_def demoInstance_def record_of_def addVectors_def updateMatrix_def
        renderedPosition_def Let_def)
  show ?thesis using b e n a u by simp
qed

lemma useFrame_no_landmarks: "useFrame None s = Inr s" "useFrame (Some []) s = Inr s"
  by (simp_all add: useFrame_def split: option.splits)

text \<open>
  C4, amended. In a bound scene a frame that supplies no landmarks (no list, or an empty
  one) returns at the guard: the scene is unchanged, so the binding table is kept and the
  instance transforms persist. The next frame with a non-empty LandmarkCloud does not bind
  again; it runs the update phase with the kept table, placing every instance at its
  anchor's landmark plus the stored offset. No frame at all drops or replaces the table
  of a bound scene; regenerating the InstanceSet does.
\<close>

theorem no_landmarks_frame_keeps_binding:
  assumes "meshRef s = Some m" and "userInstances m = Some insts"
    and "anchorsRef s = Some anchors" and "length anchors = length insts"
    and "\<forall>a \<in> set anchors. 0 \<le> landmarkIndex a \<and> landmarkIndex a < int (length landmarks)"
    and "landmarks \<noteq> []"
  shows "useFrame None s = Inr s \<and> useFrame (Some []) s = Inr s \<and>
         (\<exists>s'. frames [Some [], Some landmarks] s = Inr s' \<and>
            anchorsRef s' = Some anchors \<and>
            (\<forall>k < length insts.
               renderedPosition k s' =
                 Some (addVectors (landmarks ! nat (landmarkIndex (anchors ! k)))
                                  (anchorOffset (anchors ! k))))) \<and>
         (\<forall>any s'. useFrame any s = Inr s' \<longrightarrow> anchorsRef s' = Some anchors) \<and>
         anchorsRef (regenerate config customMesh customMeshMatrix s) = None"
proof -
  have keep: "\<forall>any s'. useFrame any s = Inr s' \<longrightarrow> anchorsRef s' = Some anchors"
    using assms(3) by (auto simp add: useFrame_def split: option.splits sum.splits if_splits)
  have drop: "anchorsRef (regenerate config customMesh customMeshMatrix s) = None"
    by (rule regenerate_anchors [OF assms(1)])
  have "0 + length anchors \<le> length insts" using assms(4) by simp
  from updatePhase_result [OF assms(5) this, of "(instanceMatrix m, tempObj s)"]
  obtain ms ob where u: "updatePhase landmarks insts anchors 0 (instanceMatrix m, tempObj s) = Inr (ms, ob)"
    and m: "\<forall>k. ms k =
              (if 0 \<le> k \<and> k < 0 + length anchors
               then Some (Compose
                      (addVectors (landmarks ! nat (landmarkIndex (anchors ! (k - 0))))
                                  (anchorOffset (anchors ! (k - 0))))
                      (FromUnitVectors (Vec3 0 1 0) (normal (insts ! k)))
                      (Vec3 (scale (insts ! k)) (scale (insts ! k)) (scale (insts ! k))))
               else fst (instanceMatrix m, tempObj s) k)"
    by blast
  define s' where "s' = s\<lparr>meshRef := Some (m\<lparr>instanceMatrix := ms\<rparr>), tempObj := ob\<rparr>"
  have f: "useFrame (Some landmarks) s = Inr s'"
    unfolding s'_def by (rule useFrame_update [OF assms(1,2,3,6) u])
  have fr: "frames [Some [], Some landmarks] s = Inr s'"
    by (simp add: useFrame_no_landmarks f)
  have a: "anchorsRef s' = Some anchors" using assms(3) by (simp add: s'_def)
  have "renderedPosition k s' =
          Some (addVectors (landmarks ! nat (landmarkIndex (anchors ! k))) (anchorOffset (anchors ! k)))"
    if "k < length insts" for k
    using m that assms(4) by (simp add: renderedPosition_def s'_def)
  then have "\<exists>s'. frames [Some [], Some landmarks] s = Inr s' \<and>
            anchorsRef s' = Some anchors \<and>
            (\<forall>k < length insts.
               renderedPosition k s' =
                 Some (addVectors (landmarks ! nat (landmarkIndex (anchors ! k)))
                                  (anchorOffset (anchors ! k))))"
    using fr a by blast
  then show ?thesis using useFrame_no_landmarks keep drop by blast
qed

theorem no_landmarks_frame_keeps_binding_witness:
  "meshRef boundDemo = Some demoMesh \<and> userInstances demoMesh = Some [demoInstance] \<and>
   anchorsRef boundDemo = Some [demoAnchor] \<and> length [demoAnchor] = length [demoInstance] \<and>
   0 \<le> landmarkIndex demoAnchor \<and> landmarkIndex demoAnchor < int (length [Vec3 1 0 0.9]) \<and>
   [Vec3 1 0 0.9] \<noteq> [] \<and>
   useFrame None boundDemo = Inr boundDemo \<and> useFrame (Some []) boundDemo = Inr boundDemo \<and>
   map_sum id anchorsRef (frames [Some [], Some [Vec3 1 0 0.9]] boundDemo) =
     Inr (Some [demoAnchor]) \<and>
   map_sum id (renderedPosition 0) (frames [Some [], Some [Vec3 1 0 0.9]] boundDemo) =
     Inr (Some (Vec3 1 0 1))"
proof -
  have a: "meshRef boundDemo = Some demoMesh" by (simp add: boundDemo_def demoScene_def)
  have b: "userInstances demoMesh = Some [demoInstance]" by (simp add: demoMesh_def)
  have c: "anchorsRef boundDemo = Some [demoAnchor]" by (simp add: boundDemo_def)
  have d: "length [demoAnchor] = length [demoInstance]" by simp
  have e: "\<forall>a \<in> set [demoAnchor]. 0 \<le> landmarkIndex a \<and> landmarkIndex a < int (length [Vec3 1 0 0.9])"
    by (simp add: demoAnchor_def)
  have f: "[Vec3 1 0 0.9] \<noteq> []" by simp
  obtain s' where s': "useFrame None boundDemo = Inr boundDemo"
    "useFrame (Some []) boundDemo = Inr boundDemo"
    "frames [Some [], Some [Vec3 1 0 0.9]] boundDemo = Inr s'"
    "anchorsRef s' = Some [demoAnchor]"
    "\<forall>k < length [demoInstance].
        renderedPosition k s' =
          Some (addVectors ([Vec3 1 0 0.9] ! nat (landmarkIndex ([demoAnchor] ! k)))
                           (anchorOffset ([demoAnchor] ! k)))"
    using no_landmarks_frame_keeps_binding [OF a b c d e f] by blast
  have "renderedPosition 0 s' = Some (Vec3 1 0 1)"
    using s'(5) by (simp add: demoAnchor_def addVectors_def)
  then show ?thesis using a b c e s'(1,2,3,4) by simp
qed

end
